theory Spec2Isabelle
  imports Complex_Main "HOL-Library.Sublist"
begin

section \<open>ECMAScript values\<close>

text \<open>
  The validators take \<^verbatim>\<open>value: any\<close>, so the model starts with the values a caller
  can pass. A number is an IEEE double: every finite double is a rational, and the
  comparisons of doubles are the comparisons of these rationals, so a finite number
  is a \<open>rat\<close> (negative zero is identified with zero: the two compare equal and print
  alike). A string is the list of its code units, here those below 256. An array is
  the list of its elements, a plain object (its prototype is \<^verbatim>\<open>Object.prototype\<close>, its
  own properties are data properties) the list of its properties in insertion order
  (no two entries with the same key), a regular expression its \<^verbatim>\<open>source\<close>,
  \<^verbatim>\<open>flags\<close> and \<^verbatim>\<open>lastIndex\<close>. Functions, BigInts, accessor properties, objects
  with another prototype and host objects are outside the model.
\<close>

datatype jsnum = Fin rat | NaN | PosInfinity | NegInfinity

record regexp =
  source :: string
  flags :: string
  lastIndex :: nat

datatype jsval =
    JNull
  | JUndefined
  | JBool bool
  | JNum jsnum
  | JStr string
  | JSymbol string
  | JArr "jsval list"
  | JObj "(string \<times> jsval) list"
  | JRegExp regexp

text \<open>A thrown exception is a value of the sum type: \<open>Inl\<close> is the throw.\<close>

datatype fault = TypeError | Thrown jsval

fun try_then :: "fault + 'a \<Rightarrow> ('a \<Rightarrow> fault + 'b) \<Rightarrow> fault + 'b" where
  "try_then (Inl e) f = Inl e"
| "try_then (Inr x) f = f x"

text \<open>
  Three built-ins of the runtime round to doubles or run the regular-expression
  engine; they are parameters of the model: the number a string denotes
  (\<^verbatim>\<open>StringToNumber\<close>), the decimal form of a number that is not an integer below
  \<open>2 ^ 53\<close> in magnitude (\<^verbatim>\<open>Number::toString\<close>; such an integer prints as its
  digits), and the matcher of a regular expression: given the expression's source and
  flags, a string and an index, it fails or gives the index where the match that
  starts at that index ends.
\<close>

record runtime =
  StringToNumber :: "string \<Rightarrow> jsnum"
  NumberToString :: "rat \<Rightarrow> string"
  RegExpMatcher :: "string \<Rightarrow> string \<Rightarrow> string \<Rightarrow> nat \<Rightarrow> nat option"

subsection \<open>Numbers: printing and comparing\<close>

definition digit_char :: "nat \<Rightarrow> char" where
  "digit_char d = ''0123456789'' ! (d mod 10)"

fun digits :: "nat \<Rightarrow> string" where
  "digits n = (if n < 10 then [digit_char n] else digits (n div 10) @ [digit_char (n mod 10)])"

declare digits.simps [simp del]

definition Number_toString :: "runtime \<Rightarrow> jsnum \<Rightarrow> string" where
  "Number_toString rt n =
     (case n of
        NaN \<Rightarrow> ''NaN''
      | PosInfinity \<Rightarrow> ''Infinity''
      | NegInfinity \<Rightarrow> ''-Infinity''
      | Fin q \<Rightarrow>
          (if q = of_int \<lfloor>q\<rfloor> \<and> \<bar>\<lfloor>q\<rfloor>\<bar> < 2 ^ 53
           then (if \<lfloor>q\<rfloor> < 0 then ''-'' else '''') @ digits (nat \<bar>\<lfloor>q\<rfloor>\<bar>)
           else NumberToString rt q))"

text \<open>\<^verbatim>\<open>x < y\<close> on numbers: false as soon as one side is NaN.\<close>

fun num_lt :: "jsnum \<Rightarrow> jsnum \<Rightarrow> bool" where
  "num_lt NaN _ = False"
| "num_lt _ NaN = False"
| "num_lt (Fin a) (Fin b) = (a < b)"
| "num_lt (Fin a) PosInfinity = True"
| "num_lt (Fin a) NegInfinity = False"
| "num_lt PosInfinity _ = False"
| "num_lt NegInfinity NegInfinity = False"
| "num_lt NegInfinity _ = True"

text \<open>\<^verbatim>\<open>x >= y\<close> on numbers: false as soon as one side is NaN, otherwise not \<^verbatim>\<open>x < y\<close>.\<close>

definition num_ge :: "jsnum \<Rightarrow> jsnum \<Rightarrow> bool" where
  "num_ge x y = (x \<noteq> NaN \<and> y \<noteq> NaN \<and> \<not> num_lt x y)"

text \<open>\<^verbatim>\<open>x < y\<close> on strings: the order of the code units, a proper prefix first.\<close>

fun str_lt :: "string \<Rightarrow> string \<Rightarrow> bool" where
  "str_lt [] [] = False"
| "str_lt [] (d # ds) = True"
| "str_lt (c # cs) [] = False"
| "str_lt (c # cs) (d # ds) =
     (if c = d then str_lt cs ds else (of_char c :: nat) < of_char d)"

subsection \<open>Conversions\<close>

text \<open>
  \<^verbatim>\<open>ToString\<close>. A Symbol cannot be converted. An array prints its elements joined by
  commas, \<^verbatim>\<open>null\<close> and \<^verbatim>\<open>undefined\<close> as nothing. A plain object prints through the
  inherited \<^verbatim>\<open>toString\<close>, unless an own property of that name shadows it: no value
  of the model is callable, so the conversion finds no method and throws.
\<close>

fun ToString :: "runtime \<Rightarrow> jsval \<Rightarrow> fault + string"
  and join :: "runtime \<Rightarrow> jsval list \<Rightarrow> fault + string"
where
  "ToString rt JUndefined = Inr ''undefined''"
| "ToString rt JNull = Inr ''null''"
| "ToString rt (JBool b) = Inr (if b then ''true'' else ''false'')"
| "ToString rt (JNum n) = Inr (Number_toString rt n)"
| "ToString rt (JStr s) = Inr s"
| "ToString rt (JSymbol d) = Inl TypeError"
| "ToString rt (JArr xs) = join rt xs"
| "ToString rt (JObj ps) =
     (if ''toString'' \<in> set (map fst ps) then Inl TypeError else Inr ''[object Object]'')"
| "ToString rt (JRegExp r) = Inr (''/'' @ source r @ ''/'' @ flags r)"
| "join rt [] = Inr []"
| "join rt (x # xs) =
     try_then (if x = JNull \<or> x = JUndefined then Inr [] else ToString rt x)
       (\<lambda>s. if xs = [] then Inr s else try_then (join rt xs) (\<lambda>r. Inr (s @ '','' @ r)))"

text \<open>\<^verbatim>\<open>ToPrimitive\<close>: a primitive is itself, an object is its string.\<close>

definition ToPrimitive :: "runtime \<Rightarrow> jsval \<Rightarrow> fault + jsval" where
  "ToPrimitive rt v =
     (case v of
        JArr xs \<Rightarrow> try_then (ToString rt v) (\<lambda>s. Inr (JStr s))
      | JObj ps \<Rightarrow> try_then (ToString rt v) (\<lambda>s. Inr (JStr s))
      | JRegExp r \<Rightarrow> try_then (ToString rt v) (\<lambda>s. Inr (JStr s))
      | _ \<Rightarrow> Inr v)"

definition ToNumber :: "runtime \<Rightarrow> jsval \<Rightarrow> fault + jsnum" where
  "ToNumber rt v =
     try_then (ToPrimitive rt v) (\<lambda>p.
       case p of
         JUndefined \<Rightarrow> Inr NaN
       | JNull \<Rightarrow> Inr (Fin 0)
       | JBool b \<Rightarrow> Inr (Fin (if b then 1 else 0))
       | JNum n \<Rightarrow> Inr n
       | JStr s \<Rightarrow> Inr (StringToNumber rt s)
       | _ \<Rightarrow> Inl TypeError)"

text \<open>The global \<^verbatim>\<open>isNaN(value)\<close> converts its argument to a number first.\<close>

definition isNaN :: "runtime \<Rightarrow> jsval \<Rightarrow> fault + bool" where
  "isNaN rt v = try_then (ToNumber rt v) (\<lambda>n. Inr (n = NaN))"

text \<open>
  \<^verbatim>\<open>x < y\<close> on values: both sides are made primitive; two strings are compared as
  strings, anything else as numbers.
\<close>

definition js_lt :: "runtime \<Rightarrow> jsval \<Rightarrow> jsval \<Rightarrow> fault + bool" where
  "js_lt rt x y =
     try_then (ToPrimitive rt x) (\<lambda>px.
     try_then (ToPrimitive rt y) (\<lambda>py.
       case (px, py) of
         (JStr s, JStr t) \<Rightarrow> Inr (str_lt s t)
       | _ \<Rightarrow> try_then (ToNumber rt px) (\<lambda>nx.
              try_then (ToNumber rt py) (\<lambda>ny. Inr (num_lt nx ny)))))"

text \<open>\<^verbatim>\<open>x > y\<close> is \<^verbatim>\<open>y < x\<close>; the builtin conversions only ever throw a TypeError.\<close>

definition js_gt :: "runtime \<Rightarrow> jsval \<Rightarrow> jsval \<Rightarrow> fault + bool" where
  "js_gt rt x y = js_lt rt y x"

text \<open>
  \<^verbatim>\<open>value.length\<close>: reading a property of \<^verbatim>\<open>null\<close> or \<^verbatim>\<open>undefined\<close> throws; a string
  and an array have their length, a plain object its own property of that name if any,
  every other value has none.
\<close>

fun get_length :: "jsval \<Rightarrow> fault + jsval" where
  "get_length JNull = Inl TypeError"
| "get_length JUndefined = Inl TypeError"
| "get_length (JStr s) = Inr (JNum (Fin (of_nat (length s))))"
| "get_length (JArr xs) = Inr (JNum (Fin (of_nat (length xs))))"
| "get_length (JObj ps) = Inr (case map_of ps ''length'' of Some l \<Rightarrow> l | None \<Rightarrow> JUndefined)"
| "get_length _ = Inr JUndefined"


section \<open>The validators\<close>

text \<open>
  Source: \<^verbatim>\<open>src/validator.ts\<close>. A \<^verbatim>\<open>ValidationErrors\<close> object maps a rule key to a
  record with a message and an optional reason; a validator returns such an object or
  \<^verbatim>\<open>null\<close>, or throws. The factories declare their parameter a \<^verbatim>\<open>number\<close> or a
  \<^verbatim>\<open>RegExp\<close>, and test it with \<open>isEmptyValue\<close> all the same: the definitions take
  any value, as the run time does, and the theorems say which parameters they are
  about.
\<close>

record detail =
  message :: string
  reason :: "jsval option"

type_synonym ValidationErrors = "string \<rightharpoonup> detail"

type_synonym ValidatorFn = "jsval \<Rightarrow> fault + ValidationErrors option"

record ValidationResult =
  errors :: "ValidationErrors option"
  valid :: bool

text \<open>
  \<^verbatim>\<open>value === null || typeof value === 'undefined' || value.length === 0\<close>: the
  property is read only when the first two tests fail.
\<close>

definition isEmptyValue :: "jsval \<Rightarrow> fault + bool" where
  "isEmptyValue v =
     (if v = JNull then Inr True
      else if v = JUndefined then Inr True
      else try_then (get_length v) (\<lambda>l. Inr (l = JNum (Fin 0))))"

definition required :: ValidatorFn where
  \<open>required v =
     try_then (isEmptyValue v) (\<lambda>e.
       Inr (if e then Some [''required'' \<mapsto> \<lparr>message = ''"value" is required'', reason = None\<rparr>]
            else None))\<close>

text \<open>
  \<^verbatim>\<open>Validators.min(min)(value)\<close>: \<^verbatim>\<open>||\<close> and \<^verbatim>\<open>&&\<close> evaluate their right side
  only when needed; the message and the reason are built only on failure.
\<close>

definition min_validator :: "runtime \<Rightarrow> jsval \<Rightarrow> ValidatorFn" where
  \<open>min_validator rt m v =
     try_then (isEmptyValue v) (\<lambda>ev.
     try_then (if ev then Inr True else isEmptyValue m) (\<lambda>skip.
       if skip then Inr None
       else
         try_then (isNaN rt v) (\<lambda>nan.
         try_then (if nan then Inr False else js_lt rt v m) (\<lambda>fails.
           if fails then
             try_then (ToString rt m) (\<lambda>s.
               Inr (Some [''min'' \<mapsto>
                 \<lparr>message = ''"value" must be greater than '' @ s,
                  reason = Some (JObj [(''min'', m), (''actual'', v)])\<rparr>]))
           else Inr None))))\<close>

definition max_validator :: "runtime \<Rightarrow> jsval \<Rightarrow> ValidatorFn" where
  \<open>max_validator rt m v =
     try_then (isEmptyValue v) (\<lambda>ev.
     try_then (if ev then Inr True else isEmptyValue m) (\<lambda>skip.
       if skip then Inr None
       else
         try_then (isNaN rt v) (\<lambda>nan.
         try_then (if nan then Inr False else js_gt rt v m) (\<lambda>fails.
           if fails then
             try_then (ToString rt m) (\<lambda>s.
               Inr (Some [''max'' \<mapsto>
                 \<lparr>message = ''"value" must be less than '' @ s,
                  reason = Some (JObj [(''max'', m), (''actual'', v)])\<rparr>]))
           else Inr None))))\<close>

text \<open>\<^verbatim>\<open>value.length ?? 0\<close>: zero when the property is \<^verbatim>\<open>undefined\<close> or \<^verbatim>\<open>null\<close>.\<close>

definition length_or_zero :: "jsval \<Rightarrow> fault + jsval" where
  "length_or_zero v =
     try_then (get_length v) (\<lambda>l. Inr (if l = JUndefined \<or> l = JNull then JNum (Fin 0) else l))"

definition minLength :: "runtime \<Rightarrow> jsval \<Rightarrow> ValidatorFn" where
  \<open>minLength rt n v =
     try_then (isEmptyValue v) (\<lambda>ev.
       if ev then Inr None
       else
         try_then (length_or_zero v) (\<lambda>len.
         try_then (js_lt rt len n) (\<lambda>fails.
           if fails then
             try_then (ToString rt n) (\<lambda>s.
               Inr (Some [''minLength'' \<mapsto>
                 \<lparr>message = ''"value" length must be at least '' @ s @ '' characters long'',
                  reason = Some (JObj [(''requiredLength'', n), (''actualLength'', len)])\<rparr>]))
           else Inr None)))\<close>

definition maxLength :: "runtime \<Rightarrow> jsval \<Rightarrow> ValidatorFn" where
  \<open>maxLength rt n v =
     try_then (isEmptyValue v) (\<lambda>ev.
       if ev then Inr None
       else
         try_then (length_or_zero v) (\<lambda>len.
         try_then (js_gt rt len n) (\<lambda>fails.
           if fails then
             try_then (ToString rt n) (\<lambda>s.
               Inr (Some [''maxLength'' \<mapsto>
                 \<lparr>message = ''"value" length must be less than '' @ s @ '' characters long'',
                  reason = Some (JObj [(''requiredLength'', n), (''actualLength'', len)])\<rparr>]))
           else Inr None)))\<close>

text \<open>
  \<^verbatim>\<open>RegExp.prototype.test\<close> runs \<^verbatim>\<open>RegExpBuiltinExec\<close>. The search starts at the
  expression's \<^verbatim>\<open>lastIndex\<close> when the expression is global or sticky, at 0 otherwise;
  it tries the matcher at the start index and, unless the expression is sticky, at
  every later index up to the length of the string.
\<close>

function search :: "(nat \<Rightarrow> nat option) \<Rightarrow> nat \<Rightarrow> nat \<Rightarrow> nat option" where
  "search m len i =
     (if len < i then None
      else case m i of Some e \<Rightarrow> Some e | None \<Rightarrow> search m len (Suc i))"
  by pat_completeness auto
termination
  by (relation "measure (\<lambda>(m, len, i). Suc len - i)") auto

declare search.simps [simp del]

text \<open>
  A global or sticky expression is written to: its \<^verbatim>\<open>lastIndex\<close> becomes the end of
  the match, or 0 when there is none. The result is whether there is a match, and the
  expression after the call.
\<close>

definition RegExpBuiltinExec :: "runtime \<Rightarrow> regexp \<Rightarrow> string \<Rightarrow> bool \<times> regexp" where
  "RegExpBuiltinExec rt r s =
     (let global = (CHR ''g'' \<in> set (flags r));
          sticky = (CHR ''y'' \<in> set (flags r));
          start = (if global \<or> sticky then lastIndex r else 0);
          matcher = RegExpMatcher rt (source r) (flags r) s;
          found = (if sticky then (if length s < start then None else matcher start)
                   else search matcher (length s) start)
      in case found of
           None \<Rightarrow> (False, if global \<or> sticky then r\<lparr>lastIndex := 0\<rparr> else r)
         | Some e \<Rightarrow> (True, if global \<or> sticky then r\<lparr>lastIndex := e\<rparr> else r))"

text \<open>
  \<^verbatim>\<open>pattern.test(value)\<close>: only a regular expression has the method; it converts
  its argument to a string and runs the expression on it. The second component is the
  object \<^verbatim>\<open>pattern\<close> after the call.
\<close>

definition regexp_test :: "runtime \<Rightarrow> jsval \<Rightarrow> jsval \<Rightarrow> fault + bool \<times> jsval" where
  "regexp_test rt p v =
     (case p of
        JRegExp r \<Rightarrow>
          try_then (ToString rt v) (\<lambda>s.
            case RegExpBuiltinExec rt r s of (ok, r') \<Rightarrow> Inr (ok, JRegExp r'))
      | _ \<Rightarrow> Inl TypeError)"

text \<open>
  \<^verbatim>\<open>Validators.pattern(pattern)(value)\<close>. The validator closes over the object
  \<^verbatim>\<open>pattern\<close>, and a run can write to it: the model returns the result of the run
  together with the object after the run, which is the pattern of the next run of the
  same validator. The reason of a failure holds the same object, as it is after the
  test.
\<close>

definition pattern ::
  "runtime \<Rightarrow> jsval \<Rightarrow> jsval \<Rightarrow> fault + ValidationErrors option \<times> jsval" where
  \<open>pattern rt p v =
     try_then (isEmptyValue v) (\<lambda>ev.
       if ev then Inr (None, p)
       else
         try_then (regexp_test rt p v) (\<lambda>(ok, p').
           if ok then Inr (None, p')
           else
             try_then (ToString rt p') (\<lambda>s.
               Inr (Some [''pattern'' \<mapsto>
                 \<lparr>message = ''"value" fails to match the required pattern: '' @ s,
                  reason = Some (JObj [(''requiredPattern'', p'), (''actualValue'', v)])\<rparr>],
                    p'))))\<close>

section \<open>The combinator\<close>

text \<open>
  \<^verbatim>\<open>validators: ValidatorFn | ValidatorFn[]\<close>. For the combinator a validator is
  what the specification's data model says: a function of the value alone.
\<close>

datatype validators = Single ValidatorFn | Multiple "ValidatorFn list"

text \<open>
  \<^verbatim>\<open>validators.map(v => v(value))\<close>: the validators run from left to right; a throw
  ends the run.
\<close>

fun executeValidators :: "jsval \<Rightarrow> ValidatorFn list \<Rightarrow> fault + ValidationErrors option list" where
  "executeValidators v [] = Inr []"
| "executeValidators v (f # fs) =
     try_then (f v) (\<lambda>r. try_then (executeValidators v fs) (\<lambda>rs. Inr (r # rs)))"

text \<open>
  \<^verbatim>\<open>errors.reduce((result, error) => error !== null ? { ...result, ...error } : result, {})\<close>,
  then \<^verbatim>\<open>null\<close> when the result has no key. The spread \<^verbatim>\<open>{ ...result, ...error }\<close>
  is \<open>result ++ error\<close>: the entries of \<open>error\<close> win.
\<close>

definition mergeErrors :: "ValidationErrors option list \<Rightarrow> ValidationErrors option" where
  "mergeErrors es =
     (let result = foldl (\<lambda>result error. case error of Some e \<Rightarrow> result ++ e | None \<Rightarrow> result)
                     Map.empty es
      in if dom result = {} then None else Some result)"

text \<open>\<^verbatim>\<open>Array.isArray(validators) ? validators : [validators]\<close>.\<close>

definition validator_list :: "validators \<Rightarrow> ValidatorFn list" where
  "validator_list validators = (case validators of Multiple fs \<Rightarrow> fs | Single f \<Rightarrow> [f])"

definition validate :: "jsval \<Rightarrow> validators \<Rightarrow> fault + ValidationResult" where
  "validate v validators =
     (let vs = validator_list validators in
      try_then (executeValidators v vs) (\<lambda>rs.
        let errors = mergeErrors rs;
            valid = (errors = None)
        in if errors \<noteq> None then Inr \<lparr>errors = errors, valid = valid\<rparr>
           else Inr \<lparr>errors = errors, valid = valid\<rparr>))"

text \<open>
  The accumulator of the \<^verbatim>\<open>reduce\<close> in \<open>mergeErrors\<close>, started from any object:
  the same fold, named so that the theorems can speak about it.
\<close>

definition accumulate :: "ValidationErrors \<Rightarrow> ValidationErrors option list \<Rightarrow> ValidationErrors" where
  "accumulate a es =
     foldl (\<lambda>result error. case error of Some e \<Rightarrow> result ++ e | None \<Rightarrow> result) a es"

section \<open>The specification's vocabulary\<close>

text \<open>
  The merge in the specification's words: the results are folded from left to right
  into one mapping; a result that is \<^verbatim>\<open>null\<close> is skipped, the keys of any other result
  are copied into the accumulator, an entry of the result replacing an entry the
  accumulator already has under the same key.
\<close>

fun spec_merge :: "ValidationErrors \<Rightarrow> ValidationErrors option list \<Rightarrow> ValidationErrors" where
  "spec_merge acc [] = acc"
| "spec_merge acc (None # rs) = spec_merge acc rs"
| "spec_merge acc (Some e # rs) =
     spec_merge (\<lambda>k. case e k of Some d \<Rightarrow> Some d | None \<Rightarrow> acc k) rs"

text \<open>
  An expression matches a string when its matcher succeeds at some index of the
  string, whatever the expression's \<^verbatim>\<open>lastIndex\<close>.
\<close>

definition matches :: "runtime \<Rightarrow> regexp \<Rightarrow> string \<Rightarrow> bool" where
  "matches rt r s =
     list_ex (\<lambda>i. RegExpMatcher rt (source r) (flags r) s i \<noteq> None) [0..<Suc (length s)]"

text \<open>
  The values that convert to a string: no Symbol, no plain object with a property
  \<^verbatim>\<open>toString\<close> of its own (which hides the inherited method and cannot be called),
  and no array with an element that does not convert.
\<close>

fun convertible :: "jsval \<Rightarrow> bool" where
  "convertible (JSymbol d) = False"
| "convertible (JArr xs) = (\<forall>x \<in> set xs. convertible x)"
| "convertible (JObj ps) = (''toString'' \<notin> set (map fst ps))"
| "convertible v = True"

text \<open>\<^verbatim>\<open>null\<close> read as the empty mapping, and the empty mapping read back as \<^verbatim>\<open>null\<close>.\<close>

definition null_as_empty :: "ValidationErrors option \<Rightarrow> ValidationErrors" where
  "null_as_empty r = (case r of None \<Rightarrow> Map.empty | Some e \<Rightarrow> e)"

definition empty_as_null :: "ValidationErrors \<Rightarrow> ValidationErrors option" where
  "empty_as_null m = (if dom m = {} then None else Some m)"

section \<open>A runtime for the examples\<close>

text \<open>
  The examples below need one instance of the three built-ins. This one reads a string
  of decimal digits as the integer it writes and any other string as NaN, prints
  nothing but a question mark for a number that does not print as an integer, and
  takes the source of a regular expression for literal text, after \<^verbatim>\<open>^\<close> to be found
  at index 0 only. It stands for the runtime on the inputs of the examples only; every
  general theorem is about all runtimes.
\<close>

fun read_digits :: "nat \<Rightarrow> string \<Rightarrow> nat option" where
  "read_digits acc [] = Some acc"
| "read_digits acc (c # cs) =
     (if c \<in> set ''0123456789'' then read_digits (10 * acc + (of_char c - 48)) cs else None)"

definition literal_matcher :: "string \<Rightarrow> string \<Rightarrow> string \<Rightarrow> nat \<Rightarrow> nat option" where
  "literal_matcher src fl s i =
     (case src of
        CHR ''^'' # lit \<Rightarrow> (if i = 0 \<and> prefix lit s then Some (length lit) else None)
      | _ \<Rightarrow> (if prefix src (drop i s) then Some (i + length src) else None))"

definition sample_runtime :: runtime where
  "sample_runtime =
     \<lparr>StringToNumber = (\<lambda>s. case read_digits 0 s of Some n \<Rightarrow> Fin (of_nat n) | None \<Rightarrow> NaN),
      NumberToString = (\<lambda>q. ''?''),
      RegExpMatcher = literal_matcher\<rparr>"

section \<open>Facts about the conversions\<close>

lemma num_lt_NaN_right [simp]: "num_lt x NaN = False"
  by (cases x) simp_all

lemma isEmptyValue_conv:
  "isEmptyValue v = Inr (v = JNull \<or> v = JUndefined \<or> v = JStr [] \<or> v = JArr [] \<or>
     (\<exists>ps. v = JObj ps \<and> map_of ps ''length'' = Some (JNum (Fin 0))))"
  by (cases v) (auto simp: isEmptyValue_def split: option.splits)

lemma isEmptyValue_returns: "\<exists>b. isEmptyValue v = Inr b"
  by (simp add: isEmptyValue_conv)

lemma isEmptyValue_JNull [simp]: "isEmptyValue JNull = Inr True"
  by (simp add: isEmptyValue_def)

lemma isEmptyValue_JUndefined [simp]: "isEmptyValue JUndefined = Inr True"
  by (simp add: isEmptyValue_def)

lemma isEmptyValue_JNum [simp]: "isEmptyValue (JNum x) = Inr False"
  by (simp add: isEmptyValue_def)

lemma isEmptyValue_JBool [simp]: "isEmptyValue (JBool b) = Inr False"
  by (simp add: isEmptyValue_def)

lemma isEmptyValue_JStr [simp]: "isEmptyValue (JStr s) = Inr (s = [])"
  by (simp add: isEmptyValue_def)

lemma length_or_zero_JStr [simp]: "length_or_zero (JStr s) = Inr (JNum (Fin (of_nat (length s))))"
  by (simp add: length_or_zero_def)

lemma length_or_zero_returns:
  "isEmptyValue v = Inr False \<Longrightarrow> \<exists>l. length_or_zero v = Inr l"
  by (cases v) (auto simp: length_or_zero_def isEmptyValue_def)

lemma ToNumber_JNum [simp]: "ToNumber rt (JNum x) = Inr x"
  by (simp add: ToNumber_def ToPrimitive_def)

lemma js_lt_JNum [simp]: "js_lt rt (JNum x) (JNum y) = Inr (num_lt x y)"
  by (simp add: js_lt_def ToPrimitive_def)

text \<open>Against a number, a value is compared through its own conversion to a number.\<close>

lemma js_lt_number:
  "ToNumber rt v = Inr x \<Longrightarrow> js_lt rt v (JNum y) = Inr (num_lt x y)"
  by (cases v; cases "join rt (case v of JArr xs \<Rightarrow> xs | _ \<Rightarrow> [])")
     (auto simp: js_lt_def ToNumber_def ToPrimitive_def split: if_splits)

lemma js_gt_number:
  "ToNumber rt v = Inr x \<Longrightarrow> js_gt rt v (JNum y) = Inr (num_lt y x)"
  by (cases v; cases "join rt (case v of JArr xs \<Rightarrow> xs | _ \<Rightarrow> [])")
     (auto simp: js_gt_def js_lt_def ToNumber_def ToPrimitive_def split: if_splits)

text \<open>A value that converts to a string converts to a primitive and to a number.\<close>

lemma ToPrimitive_of_ToString:
  "ToString rt v = Inr s \<Longrightarrow>
     \<exists>p n. ToPrimitive rt v = Inr p \<and> ToPrimitive rt p = Inr p \<and>
       ToNumber rt p = Inr n \<and> ToNumber rt v = Inr n"
  by (cases v) (auto simp: ToPrimitive_def ToNumber_def split: if_splits)

section \<open>The presence rule\<close>

lemma required_returns: "\<exists>r. required v = Inr r"
  by (simp add: required_def isEmptyValue_conv)

lemma required_JNum [simp]: "required (JNum x) = Inr None"
  by (simp add: required_def)

text \<open>
  Claim C2, as the code has it. \<open>required\<close> returns the record
  \<^verbatim>\<open>{ required: { message: '"value" is required' } }\<close> for \<^verbatim>\<open>null\<close>, for
  \<^verbatim>\<open>undefined\<close> and for every value whose \<^verbatim>\<open>length\<close> property is the number 0: the
  empty string, the empty array, an object with \<^verbatim>\<open>length: 0\<close>. For every other value
  (0, \<^verbatim>\<open>false\<close>, a non-empty string, any number) it returns \<^verbatim>\<open>null\<close>. It never throws.
\<close>

theorem required_on_every_value:
  \<open>required v =
     Inr (if v = JNull \<or> v = JUndefined \<or> v = JStr [] \<or> v = JArr [] \<or>
             (\<exists>ps. v = JObj ps \<and> map_of ps ''length'' = Some (JNum (Fin 0)))
          then Some [''required'' \<mapsto> \<lparr>message = ''"value" is required'', reason = None\<rparr>]
          else None)\<close>
  by (simp add: required_def isEmptyValue_conv)

text \<open>The rule on 0, on \<^verbatim>\<open>false\<close>, on a non-empty string and on the empty string.\<close>

theorem required_on_every_value_witness:
  \<open>required (JNum (Fin 0)) = Inr None \<and> required (JBool False) = Inr None \<and>
   required (JStr ''a'') = Inr None \<and>
   required (JStr []) =
     Inr (Some [''required'' \<mapsto> \<lparr>message = ''"value" is required'', reason = None\<rparr>])\<close>
  using required_on_every_value [of "JNum (Fin 0)"] required_on_every_value [of "JBool False"]
    required_on_every_value [of "JStr ''a''"] required_on_every_value [of "JStr []"]
  by simp

text \<open>
  Claim C2 as written fails on the empty array: it is neither \<^verbatim>\<open>null\<close>, nor
  \<^verbatim>\<open>undefined\<close>, nor the empty string, and \<open>required\<close> does not return \<^verbatim>\<open>null\<close> on it.
\<close>

theorem required_empty_array:
  \<open>JArr [] \<noteq> JNull \<and> JArr [] \<noteq> JUndefined \<and> JArr [] \<noteq> JStr [] \<and>
   required (JArr []) =
     Inr (Some [''required'' \<mapsto> \<lparr>message = ''"value" is required'', reason = None\<rparr>]) \<and>
   required (JArr []) \<noteq> Inr None\<close>
  by (simp add: required_def isEmptyValue_def)

section \<open>The numeric bounds\<close>

lemma min_validator_JNum:
  \<open>min_validator rt (JNum y) (JNum x) =
     Inr (if num_lt x y
          then Some [''min'' \<mapsto>
                 \<lparr>message = ''"value" must be greater than '' @ Number_toString rt y,
                  reason = Some (JObj [(''min'', JNum y), (''actual'', JNum x)])\<rparr>]
          else None)\<close>
  by (simp add: min_validator_def isNaN_def)

lemma max_validator_JNum:
  \<open>max_validator rt (JNum y) (JNum x) =
     Inr (if num_lt y x
          then Some [''max'' \<mapsto>
                 \<lparr>message = ''"value" must be less than '' @ Number_toString rt y,
                  reason = Some (JObj [(''max'', JNum y), (''actual'', JNum x)])\<rparr>]
          else None)\<close>
  by (simp add: max_validator_def isNaN_def js_gt_def)

lemma Number_toString_5 [simp]: "Number_toString rt (Fin 5) = ''5''"
  by (simp add: Number_toString_def digits.simps digit_char_def)

lemma Number_toString_10 [simp]: "Number_toString rt (Fin 10) = ''10''"
  by (simp add: Number_toString_def digits.simps digit_char_def)

text \<open>
  Claim C3, as the code has it. Let \<open>v\<close> be a value that converts to the number \<open>x\<close>
  (a number converts to itself) and let the threshold be \<^verbatim>\<open>null\<close>, \<^verbatim>\<open>undefined\<close> or a
  number \<open>y\<close>. Then \<^verbatim>\<open>min(m)(v)\<close> returns \<^verbatim>\<open>null\<close> exactly when \<open>v\<close> is empty, or the
  threshold is empty, or \<^verbatim>\<open>x < y\<close> is false; otherwise it returns exactly
  \<^verbatim>\<open>{ min: { message: '"value" must be greater than ' + y, reason: { min: y, actual: v } } }\<close>.
  When neither \<open>x\<close> nor \<open>y\<close> is NaN, \<^verbatim>\<open>x < y\<close> is false exactly when \<^verbatim>\<open>x >= y\<close>.
\<close>

theorem min_on_numeric_values:
  assumes "ToNumber rt v = Inr x"
  shows
    \<open>min_validator rt JNull v = Inr None \<and>
     min_validator rt JUndefined v = Inr None \<and>
     min_validator rt (JNum y) v =
       Inr (if isEmptyValue v = Inr True \<or> \<not> num_lt x y then None
            else Some [''min'' \<mapsto>
                   \<lparr>message = ''"value" must be greater than '' @ Number_toString rt y,
                    reason = Some (JObj [(''min'', JNum y), (''actual'', v)])\<rparr>]) \<and>
     (x \<noteq> NaN \<and> y \<noteq> NaN \<longrightarrow> (\<not> num_lt x y) = num_ge x y)\<close>
proof -
  obtain b where b: "isEmptyValue v = Inr b"
    using isEmptyValue_returns by blast
  have "min_validator rt JNull v = Inr None" "min_validator rt JUndefined v = Inr None"
    by (simp_all add: min_validator_def b)
  moreover have
    \<open>min_validator rt (JNum y) v =
       Inr (if isEmptyValue v = Inr True \<or> \<not> num_lt x y then None
            else Some [''min'' \<mapsto>
                   \<lparr>message = ''"value" must be greater than '' @ Number_toString rt y,
                    reason = Some (JObj [(''min'', JNum y), (''actual'', v)])\<rparr>])\<close>
    by (simp add: min_validator_def b isNaN_def assms js_lt_number [OF assms])
  ultimately show ?thesis
    by (simp add: num_ge_def)
qed

text \<open>The test of the repository: \<^verbatim>\<open>min(10)(9)\<close>.\<close>

theorem min_on_numeric_values_witness:
  \<open>ToNumber sample_runtime (JNum (Fin 9)) = Inr (Fin 9) \<and> Fin 9 \<noteq> NaN \<and> Fin 10 \<noteq> NaN \<and>
   min_validator sample_runtime (JNum (Fin 10)) (JNum (Fin 9)) =
     Inr (Some [''min'' \<mapsto>
            \<lparr>message = ''"value" must be greater than 10'',
             reason = Some (JObj [(''min'', JNum (Fin 10)), (''actual'', JNum (Fin 9))])\<rparr>]) \<and>
   (\<not> num_lt (Fin 9) (Fin 10)) = num_ge (Fin 9) (Fin 10)\<close>
proof -
  have h: "ToNumber sample_runtime (JNum (Fin 9)) = Inr (Fin 9)"
    by simp
  show ?thesis
    using h min_on_numeric_values [OF h, of "Fin 10"] by simp
qed

text \<open>
  Claim C3 as written fails when the threshold is NaN: \<^verbatim>\<open>min(NaN)(3)\<close> returns
  \<^verbatim>\<open>null\<close>, although \<^verbatim>\<open>3 >= NaN\<close> is false and neither 3 nor NaN is empty.
\<close>

theorem min_NaN_threshold:
  "min_validator sample_runtime (JNum NaN) (JNum (Fin 3)) = Inr None \<and>
   \<not> num_ge (Fin 3) NaN \<and>
   isEmptyValue (JNum (Fin 3)) = Inr False \<and> isEmptyValue (JNum NaN) = Inr False"
  by (simp add: min_validator_def isNaN_def num_ge_def)

lemma min_validator_JBool:
  \<open>min_validator rt (JNum y) (JBool b) =
     Inr (if num_lt (Fin (if b then 1 else 0)) y
          then Some [''min'' \<mapsto>
                 \<lparr>message = ''"value" must be greater than '' @ Number_toString rt y,
                  reason = Some (JObj [(''min'', JNum y), (''actual'', JBool b)])\<rparr>]
          else None)\<close>
  by (simp add: min_validator_def isNaN_def ToNumber_def ToPrimitive_def js_lt_def)

lemma max_validator_JBool:
  \<open>max_validator rt (JNum y) (JBool b) =
     Inr (if num_lt y (Fin (if b then 1 else 0))
          then Some [''max'' \<mapsto>
                 \<lparr>message = ''"value" must be less than '' @ Number_toString rt y,
                  reason = Some (JObj [(''max'', JNum y), (''actual'', JBool b)])\<rparr>]
          else None)\<close>
  by (simp add: max_validator_def isNaN_def ToNumber_def ToPrimitive_def js_lt_def js_gt_def)

lemma bounds_throw_on_JSymbol:
  assumes "isEmptyValue m = Inr False"
  shows "min_validator rt m (JSymbol d) = Inl TypeError"
    and "max_validator rt m (JSymbol d) = Inl TypeError"
  using assms
  by (simp_all add: min_validator_def max_validator_def isEmptyValue_def isNaN_def
      ToNumber_def ToPrimitive_def)

lemma isNaN_of_string_form:
  assumes "StringToNumber rt s = NaN"
    and "v = JStr s \<or> v = JArr xs \<and> join rt xs = Inr s \<or>
         v = JObj ps \<and> ''toString'' \<notin> set (map fst ps) \<and> s = ''[object Object]'' \<or>
         v = JRegExp r \<and> s = ''/'' @ source r @ ''/'' @ flags r"
  shows "isNaN rt v = Inr True"
  using assms by (auto simp: isNaN_def ToNumber_def ToPrimitive_def)

text \<open>
  Claim C6, as the code has it. The values that are not numbers and pass both bounds
  are those whose string does not spell a number: on a non-empty string \<open>s\<close> that the
  runtime reads as NaN, on a non-empty array, plain object or regular expression whose
  string form the runtime reads as NaN, and on the number NaN itself, \<^verbatim>\<open>min(m)\<close> and
  \<^verbatim>\<open>max(m)\<close> return \<^verbatim>\<open>null\<close> for every threshold that is not empty. A boolean is not
  passed: it is compared as 1 or 0 with a threshold that is a number. A Symbol cannot
  be converted: both validators throw a TypeError on it.
\<close>

theorem bounds_on_values_that_are_not_numbers:
  \<open>(isEmptyValue v = Inr False \<and> isEmptyValue m = Inr False \<and> StringToNumber rt s = NaN \<and>
      (v = JStr s \<or> v = JArr xs \<and> join rt xs = Inr s \<or>
       v = JObj ps \<and> ''toString'' \<notin> set (map fst ps) \<and> s = ''[object Object]'' \<or>
       v = JRegExp r \<and> s = ''/'' @ source r @ ''/'' @ flags r) \<longrightarrow>
      min_validator rt m v = Inr None \<and> max_validator rt m v = Inr None) \<and>
   (isEmptyValue m = Inr False \<longrightarrow>
      min_validator rt m (JNum NaN) = Inr None \<and> max_validator rt m (JNum NaN) = Inr None) \<and>
   min_validator rt (JNum y) (JBool b) =
     Inr (if num_lt (Fin (if b then 1 else 0)) y
          then Some [''min'' \<mapsto>
                 \<lparr>message = ''"value" must be greater than '' @ Number_toString rt y,
                  reason = Some (JObj [(''min'', JNum y), (''actual'', JBool b)])\<rparr>]
          else None) \<and>
   max_validator rt (JNum y) (JBool b) =
     Inr (if num_lt y (Fin (if b then 1 else 0))
          then Some [''max'' \<mapsto>
                 \<lparr>message = ''"value" must be less than '' @ Number_toString rt y,
                  reason = Some (JObj [(''max'', JNum y), (''actual'', JBool b)])\<rparr>]
          else None) \<and>
   (isEmptyValue m = Inr False \<longrightarrow>
      min_validator rt m (JSymbol d) = Inl TypeError \<and>
      max_validator rt m (JSymbol d) = Inl TypeError)\<close>
proof (intro conjI impI)
  assume a: "isEmptyValue v = Inr False \<and> isEmptyValue m = Inr False \<and> StringToNumber rt s = NaN \<and>
      (v = JStr s \<or> v = JArr xs \<and> join rt xs = Inr s \<or>
       v = JObj ps \<and> ''toString'' \<notin> set (map fst ps) \<and> s = ''[object Object]'' \<or>
       v = JRegExp r \<and> s = ''/'' @ source r @ ''/'' @ flags r)"
  then have nan: "isNaN rt v = Inr True"
    using isNaN_of_string_form [of rt s v xs ps r] by blast
  show "min_validator rt m v = Inr None"
    using a nan by (simp add: min_validator_def)
  show "max_validator rt m v = Inr None"
    using a nan by (simp add: max_validator_def)
next
  assume m: "isEmptyValue m = Inr False"
  show "min_validator rt m (JNum NaN) = Inr None"
    using m by (simp add: min_validator_def isNaN_def)
  show "max_validator rt m (JNum NaN) = Inr None"
    using m by (simp add: max_validator_def isNaN_def)
  show "min_validator rt m (JSymbol d) = Inl TypeError"
    by (rule bounds_throw_on_JSymbol(1) [OF m])
  show "max_validator rt m (JSymbol d) = Inl TypeError"
    by (rule bounds_throw_on_JSymbol(2) [OF m])
qed (rule min_validator_JBool max_validator_JBool)+

text \<open>
  The string \<^verbatim>\<open>'abc'\<close> and the number NaN against the threshold 5, \<^verbatim>\<open>false\<close> against
  \<^verbatim>\<open>min(5)\<close> and \<^verbatim>\<open>max(5)\<close>, a Symbol against both.
\<close>

theorem bounds_on_values_that_are_not_numbers_witness:
  \<open>isEmptyValue (JStr ''abc'') = Inr False \<and> isEmptyValue (JNum (Fin 5)) = Inr False \<and>
   StringToNumber sample_runtime ''abc'' = NaN \<and>
   min_validator sample_runtime (JNum (Fin 5)) (JStr ''abc'') = Inr None \<and>
   max_validator sample_runtime (JNum (Fin 5)) (JStr ''abc'') = Inr None \<and>
   min_validator sample_runtime (JNum (Fin 5)) (JNum NaN) = Inr None \<and>
   max_validator sample_runtime (JNum (Fin 5)) (JNum NaN) = Inr None \<and>
   min_validator sample_runtime (JNum (Fin 5)) (JBool False) =
     Inr (Some [''min'' \<mapsto>
            \<lparr>message = ''"value" must be greater than 5'',
             reason = Some (JObj [(''min'', JNum (Fin 5)), (''actual'', JBool False)])\<rparr>]) \<and>
   max_validator sample_runtime (JNum (Fin 5)) (JBool False) = Inr None \<and>
   min_validator sample_runtime (JNum (Fin 5)) (JSymbol ''id'') = Inl TypeError \<and>
   max_validator sample_runtime (JNum (Fin 5)) (JSymbol ''id'') = Inl TypeError\<close>
proof -
  have h: "isEmptyValue (JStr ''abc'') = Inr False" "isEmptyValue (JNum (Fin 5)) = Inr False"
    "StringToNumber sample_runtime ''abc'' = NaN"
    by (simp_all add: sample_runtime_def)
  show ?thesis
    using h bounds_on_values_that_are_not_numbers [of "JStr ''abc''" "JNum (Fin 5)" sample_runtime
        "''abc''" "[]" "[]" "\<lparr>source = [], flags = [], lastIndex = 0\<rparr>" "Fin 5" False "''id''"]
    by simp
qed

text \<open>
  Claim C6 as written fails on \<^verbatim>\<open>true\<close>, which is not a number and not empty:
  \<^verbatim>\<open>min(5)(true)\<close> reports a failure, and so does \<^verbatim>\<open>max(0)(true)\<close>.
\<close>

theorem min_fails_on_true:
  \<open>isEmptyValue (JBool True) = Inr False \<and> isEmptyValue (JNum (Fin 5)) = Inr False \<and>
   isEmptyValue (JNum (Fin 0)) = Inr False \<and>
   min_validator sample_runtime (JNum (Fin 5)) (JBool True) =
     Inr (Some [''min'' \<mapsto>
            \<lparr>message = ''"value" must be greater than 5'',
             reason = Some (JObj [(''min'', JNum (Fin 5)), (''actual'', JBool True)])\<rparr>]) \<and>
   min_validator sample_runtime (JNum (Fin 5)) (JBool True) \<noteq> Inr None \<and>
   max_validator sample_runtime (JNum (Fin 0)) (JBool True) \<noteq> Inr None\<close>
  by (simp add: min_validator_JBool max_validator_JBool)

section \<open>The length bounds\<close>




section \<open>The pattern rule\<close>

lemma search_None_iff:
  "search m len i = None \<longleftrightarrow> (\<forall>j. i \<le> j \<and> j \<le> len \<longrightarrow> m j = None)"
proof (induction m len i rule: search.induct)
  case (1 m len i)
  show ?case
  proof (cases "len < i")
    case True
    then show ?thesis by (subst search.simps) auto
  next
    case False
    show ?thesis
    proof (cases "m i")
      case None
      have "search m len i = search m len (Suc i)"
        using False None by (subst search.simps) simp
      also have "\<dots> = None \<longleftrightarrow> (\<forall>j. Suc i \<le> j \<and> j \<le> len \<longrightarrow> m j = None)"
        using 1 [OF False None] .
      also have "\<dots> \<longleftrightarrow> (\<forall>j. i \<le> j \<and> j \<le> len \<longrightarrow> m j = None)"
        using None by (metis Suc_leI le_neq_implies_less Suc_leD)
      finally show ?thesis .
    next
      case (Some e)
      then show ?thesis using False by (subst search.simps) auto
    qed
  qed
qed

lemma matches_iff:
  "matches rt r s \<longleftrightarrow> (\<exists>j \<le> length s. RegExpMatcher rt (source r) (flags r) s j \<noteq> None)"
proof -
  have "set [0..<Suc (length s)] = {j. j \<le> length s}"
    by auto
  then show ?thesis
    unfolding matches_def list_ex_iff by blast
qed

lemma search_from_start:
  "search (RegExpMatcher rt (source r) (flags r) s) (length s) 0 = None \<longleftrightarrow> \<not> matches rt r s"
  by (simp add: search_None_iff matches_iff)

lemma RegExpBuiltinExec_from_start:
  assumes "CHR ''y'' \<notin> set (flags r)" and "CHR ''g'' \<notin> set (flags r) \<or> lastIndex r = 0"
  shows "fst (RegExpBuiltinExec rt r s) = matches rt r s"
    and "CHR ''g'' \<notin> set (flags r) \<or> \<not> matches rt r s \<Longrightarrow> snd (RegExpBuiltinExec rt r s) = r"
proof -
  have start: "(if CHR ''g'' \<in> set (flags r) then lastIndex r else 0) = 0"
    using assms by auto
  show "fst (RegExpBuiltinExec rt r s) = matches rt r s"
    using assms(1) search_from_start [of rt r s]
    by (auto simp: RegExpBuiltinExec_def Let_def start split: option.splits)
  show "snd (RegExpBuiltinExec rt r s) = r" if "CHR ''g'' \<notin> set (flags r) \<or> \<not> matches rt r s"
    using assms that search_from_start [of rt r s]
    by (auto simp: RegExpBuiltinExec_def Let_def start split: option.splits)
qed

lemma ToString_JRegExp_update [simp]:
  "ToString rt (JRegExp (r\<lparr>lastIndex := n\<rparr>)) = ToString rt (JRegExp r)"
  by simp

text \<open>
  Claim C8, as the code has it. Let \<open>r\<close> be a regular expression that is not sticky
  and whose search starts at index 0: \<open>r\<close> is not global, or its \<^verbatim>\<open>lastIndex\<close> is 0.
  For a string \<open>s\<close>, \<^verbatim>\<open>pattern(r)(s)\<close> returns \<^verbatim>\<open>null\<close> exactly when \<open>s\<close> is empty or
  \<open>r\<close> matches \<open>s\<close>; otherwise it returns the record with the single key
  \<^verbatim>\<open>pattern\<close>, whose message ends with the string form \<^verbatim>\<open>/source/flags\<close> of \<open>r\<close>
  and whose reason is \<^verbatim>\<open>{ requiredPattern: r, actualValue: s }\<close>. An expression that
  is not global is left as it was.
\<close>

theorem pattern_on_strings:
  assumes "CHR ''y'' \<notin> set (flags r)" and "CHR ''g'' \<notin> set (flags r) \<or> lastIndex r = 0"
  shows
    \<open>\<exists>r'. pattern rt (JRegExp r) (JStr s) =
       Inr (if s = [] \<or> matches rt r s then None
            else Some [''pattern'' \<mapsto>
                   \<lparr>message = ''"value" fails to match the required pattern: ''
                                @ ''/'' @ source r @ ''/'' @ flags r,
                    reason = Some (JObj [(''requiredPattern'', JRegExp r), (''actualValue'', JStr s)])\<rparr>],
            JRegExp r') \<and>
       (CHR ''g'' \<notin> set (flags r) \<longrightarrow> r' = r)\<close>
proof (cases "s = []")
  case True
  then show ?thesis by (simp add: pattern_def)
next
  case False
  obtain ok r' where e: "RegExpBuiltinExec rt r s = (ok, r')"
    by (cases "RegExpBuiltinExec rt r s")
  have ok: "ok = matches rt r s"
    using RegExpBuiltinExec_from_start(1) [OF assms, where rt = rt and s = s] e by simp
  have r': "r' = r" if "CHR ''g'' \<notin> set (flags r) \<or> \<not> matches rt r s"
    using RegExpBuiltinExec_from_start(2) [OF assms that] e by simp
  show ?thesis
  proof (cases "matches rt r s")
    case True
    then show ?thesis
      using False e ok r' by (simp add: pattern_def regexp_test_def)
  next
    case no: False
    then have "r' = r" using r' by simp
    then show ?thesis
      using False e ok no by (simp add: pattern_def regexp_test_def)
  qed
qed


text \<open>A string that starts as the expression asks, one that does not, and the empty string.\<close>

theorem pattern_on_strings_witness:
  \<open>CHR ''y'' \<notin> set (flags \<lparr>source = ''^https:'', flags = [], lastIndex = 0\<rparr>) \<and>
   CHR ''g'' \<notin> set (flags \<lparr>source = ''^https:'', flags = [], lastIndex = 0\<rparr>) \<and>
   pattern sample_runtime (JRegExp \<lparr>source = ''^https:'', flags = [], lastIndex = 0\<rparr>)
     (JStr ''https://github.com'') =
     Inr (None, JRegExp \<lparr>source = ''^https:'', flags = [], lastIndex = 0\<rparr>) \<and>
   pattern sample_runtime (JRegExp \<lparr>source = ''^https:'', flags = [], lastIndex = 0\<rparr>)
     (JStr []) =
     Inr (None, JRegExp \<lparr>source = ''^https:'', flags = [], lastIndex = 0\<rparr>) \<and>
   pattern sample_runtime (JRegExp \<lparr>source = ''^https:'', flags = [], lastIndex = 0\<rparr>)
     (JStr ''http://x.com'') =
     Inr (Some [''pattern'' \<mapsto>
            \<lparr>message = ''"value" fails to match the required pattern: /^https:/'',
             reason = Some (JObj
               [(''requiredPattern'', JRegExp \<lparr>source = ''^https:'', flags = [], lastIndex = 0\<rparr>),
                (''actualValue'', JStr ''http://x.com'')])\<rparr>],
          JRegExp \<lparr>source = ''^https:'', flags = [], lastIndex = 0\<rparr>)\<close>
proof -
  let ?r = "\<lparr>source = ''^https:'', flags = [], lastIndex = 0\<rparr>"
  have y: "CHR ''y'' \<notin> set (flags ?r)" and g: "CHR ''g'' \<notin> set (flags ?r)"
    by simp_all
  then have g0: "CHR ''g'' \<notin> set (flags ?r) \<or> lastIndex ?r = 0"
    by simp
  have yes: "matches sample_runtime ?r ''https://github.com''"
    unfolding matches_iff
    by (rule exI [of _ 0]) (simp add: sample_runtime_def literal_matcher_def)
  have no: "\<not> matches sample_runtime ?r ''http://x.com''"
    by (simp add: matches_iff sample_runtime_def literal_matcher_def)
  show ?thesis
    using y g yes no
      pattern_on_strings [OF y g0, of sample_runtime "''https://github.com''"]
      pattern_on_strings [OF y g0, of sample_runtime "[]"]
      pattern_on_strings [OF y g0, of sample_runtime "''http://x.com''"]
    by auto
qed

text \<open>
  Claim C8 as written fails on a global expression whose \<^verbatim>\<open>lastIndex\<close> is not 0. The
  expression \<^verbatim>\<open>/a/g\<close> matches the string \<^verbatim>\<open>'a'\<close>. The first run of \<^verbatim>\<open>pattern(/a/g)\<close>
  on \<^verbatim>\<open>'a'\<close> returns \<^verbatim>\<open>null\<close> and leaves the expression with \<^verbatim>\<open>lastIndex\<close> 1; the
  second run, of the same validator on the same string, returns the pattern error.
\<close>

theorem pattern_second_run:
  \<open>matches sample_runtime \<lparr>source = ''a'', flags = ''g'', lastIndex = 1\<rparr> ''a'' \<and>
   ''a'' \<noteq> [] \<and>
   pattern sample_runtime (JRegExp \<lparr>source = ''a'', flags = ''g'', lastIndex = 0\<rparr>) (JStr ''a'') =
     Inr (None, JRegExp \<lparr>source = ''a'', flags = ''g'', lastIndex = 1\<rparr>) \<and>
   pattern sample_runtime (JRegExp \<lparr>source = ''a'', flags = ''g'', lastIndex = 1\<rparr>) (JStr ''a'') =
     Inr (Some [''pattern'' \<mapsto>
            \<lparr>message = ''"value" fails to match the required pattern: /a/g'',
             reason = Some (JObj
               [(''requiredPattern'', JRegExp \<lparr>source = ''a'', flags = ''g'', lastIndex = 0\<rparr>),
                (''actualValue'', JStr ''a'')])\<rparr>],
          JRegExp \<lparr>source = ''a'', flags = ''g'', lastIndex = 0\<rparr>)\<close>
  by (simp add: matches_def pattern_def regexp_test_def RegExpBuiltinExec_def search.simps
      sample_runtime_def literal_matcher_def)

section \<open>Which validators return\<close>

lemma ToString_convertible:
  "(\<exists>s. ToString rt v = Inr s) \<longleftrightarrow> convertible v"
  "(\<exists>s. join rt xs = Inr s) \<longleftrightarrow> (\<forall>x \<in> set xs. convertible x)"
proof (induction rt v and rt xs rule: ToString_join.induct)
  case (11 rt x xs)
  show ?case
  proof (cases "x = JNull \<or> x = JUndefined")
    case True
    then show ?thesis using 11 by (cases "join rt xs") auto
  next
    case False
    then show ?thesis using 11 by (cases "ToString rt x"; cases "join rt xs") auto
  qed
qed auto


lemma ToString_fault:
  "ToString rt v = Inl e \<Longrightarrow> e = TypeError"
  "join rt xs = Inl e \<Longrightarrow> e = TypeError"
proof (induction rt v and rt xs arbitrary: e and e rule: ToString_join.induct)
  case (11 rt x xs)
  show ?case
  proof (cases "x = JNull \<or> x = JUndefined")
    case True
    then show ?thesis using 11 by (cases "join rt xs") (auto split: if_splits)
  next
    case False
    then show ?thesis
      using 11 by (cases "ToString rt x"; cases "join rt xs") (auto split: if_splits)
  qed
qed (auto split: if_splits)

lemma ToString_not_convertible: "\<not> convertible v \<Longrightarrow> ToString rt v = Inl TypeError"
  using ToString_convertible(1) [of rt v] ToString_fault(1) [of rt v]
  by (cases "ToString rt v") auto

lemma ToNumber_not_convertible: "\<not> convertible v \<Longrightarrow> ToNumber rt v = Inl TypeError"
  using ToString_not_convertible [of v rt]
  by (cases v) (auto simp: ToNumber_def ToPrimitive_def)

lemma js_lt_not_convertible:
  "\<not> convertible l \<Longrightarrow> js_lt rt l (JNum y) = Inl TypeError"
  "\<not> convertible l \<Longrightarrow> js_lt rt (JNum y) l = Inl TypeError"
  using ToString_not_convertible [of l rt]
  by (cases l; auto simp: js_lt_def ToNumber_def ToPrimitive_def)+

lemma ToNumber_convertible: "convertible v \<Longrightarrow> \<exists>n. ToNumber rt v = Inr n"
  using ToString_convertible(1) [of rt v] ToPrimitive_of_ToString [of rt v] by blast

lemma min_validator_returns:
  assumes "isEmptyValue v = Inr True \<or> convertible v"
  shows "\<exists>r. min_validator rt (JNum y) v = Inr r"
proof (cases "isEmptyValue v = Inr True")
  case True
  then show ?thesis by (simp add: min_validator_def)
next
  case False
  then have b: "isEmptyValue v = Inr False"
    using isEmptyValue_returns [of v] by auto
  obtain n where n: "ToNumber rt v = Inr n"
    using ToNumber_convertible assms False by blast
  show ?thesis
    by (simp add: min_validator_def b isNaN_def n js_lt_number [OF n])
qed

lemma max_validator_returns:
  assumes "isEmptyValue v = Inr True \<or> convertible v"
  shows "\<exists>r. max_validator rt (JNum y) v = Inr r"
proof (cases "isEmptyValue v = Inr True")
  case True
  then show ?thesis by (simp add: max_validator_def)
next
  case False
  then have b: "isEmptyValue v = Inr False"
    using isEmptyValue_returns [of v] by auto
  obtain n where n: "ToNumber rt v = Inr n"
    using ToNumber_convertible assms False by blast
  show ?thesis
    by (simp add: max_validator_def b isNaN_def n js_gt_number [OF n])
qed

lemma pattern_returns:
  assumes "isEmptyValue v = Inr True \<or> convertible v"
  shows "\<exists>r p'. pattern rt (JRegExp re) v = Inr (r, p')"
proof (cases "isEmptyValue v = Inr True")
  case True
  then show ?thesis by (simp add: pattern_def)
next
  case False
  then have b: "isEmptyValue v = Inr False"
    using isEmptyValue_returns [of v] by auto
  obtain s where s: "ToString rt v = Inr s"
    using ToString_convertible(1) [of rt v] assms False by blast
  obtain ok r' where e: "RegExpBuiltinExec rt re s = (ok, r')"
    by (cases "RegExpBuiltinExec rt re s")
  show ?thesis
    by (simp add: pattern_def b regexp_test_def s e)
qed

lemma bounds_and_pattern_throw:
  assumes "isEmptyValue v = Inr False" and "\<not> convertible v"
  shows "min_validator rt (JNum y) v = Inl TypeError"
    and "max_validator rt (JNum y) v = Inl TypeError"
    and "pattern rt (JRegExp re) v = Inl TypeError"
  using assms ToNumber_not_convertible [of v rt] ToString_not_convertible [of v rt]
  by (simp_all add: min_validator_def max_validator_def pattern_def isNaN_def regexp_test_def)

lemma minLength_returns:
  assumes "\<forall>l. length_or_zero v = Inr l \<longrightarrow> convertible l"
  shows "\<exists>r. minLength rt (JNum y) v = Inr r"
proof (cases "isEmptyValue v = Inr True")
  case True
  then show ?thesis by (simp add: minLength_def)
next
  case False
  then have b: "isEmptyValue v = Inr False"
    using isEmptyValue_returns [of v] by auto
  then obtain l where l: "length_or_zero v = Inr l"
    using length_or_zero_returns by blast
  then obtain n where "ToNumber rt l = Inr n"
    using assms ToNumber_convertible by blast
  then show ?thesis
    by (simp add: minLength_def b l js_lt_number)
qed

lemma maxLength_returns:
  assumes "\<forall>l. length_or_zero v = Inr l \<longrightarrow> convertible l"
  shows "\<exists>r. maxLength rt (JNum y) v = Inr r"
proof (cases "isEmptyValue v = Inr True")
  case True
  then show ?thesis by (simp add: maxLength_def)
next
  case False
  then have b: "isEmptyValue v = Inr False"
    using isEmptyValue_returns [of v] by auto
  then obtain l where l: "length_or_zero v = Inr l"
    using length_or_zero_returns by blast
  then obtain n where "ToNumber rt l = Inr n"
    using assms ToNumber_convertible by blast
  then show ?thesis
    by (simp add: maxLength_def b l js_gt_number)
qed

lemma length_bounds_throw:
  assumes "isEmptyValue v = Inr False" and "length_or_zero v = Inr l" and "\<not> convertible l"
  shows "minLength rt (JNum y) v = Inl TypeError"
    and "maxLength rt (JNum y) v = Inl TypeError"
  using assms js_lt_not_convertible [of l rt y]
  by (simp_all add: minLength_def maxLength_def js_gt_def)

text \<open>
  Claim C9, as the code has it, on the values of the model: \<^verbatim>\<open>null\<close>, \<^verbatim>\<open>undefined\<close>,
  booleans, numbers, strings, Symbols, regular expressions, arrays of such values, and
  plain objects: objects with the prototype \<^verbatim>\<open>Object.prototype\<close> whose own properties
  are data properties that hold such values.
  \<open>required\<close> returns on every one of them. With a number for threshold and a regular
  expression for pattern, the validators made by \<^verbatim>\<open>min\<close>, \<^verbatim>\<open>max\<close> and \<^verbatim>\<open>pattern\<close>
  return \<^verbatim>\<open>null\<close> or a record on every value that is empty or converts to a string,
  and throw a TypeError on every other value: a Symbol, a plain object with a property
  \<^verbatim>\<open>toString\<close> of its own, an array with such an element. Those made by
  \<^verbatim>\<open>minLength\<close> and \<^verbatim>\<open>maxLength\<close> return on every value whose length converts to a
  string, and throw a TypeError on every value that is not empty and whose length
  does not.
\<close>

theorem validators_return_on_convertible_values:
  "(\<exists>r. required v = Inr r) \<and>
   (isEmptyValue v = Inr True \<or> convertible v \<longrightarrow>
      (\<exists>r. min_validator rt (JNum y) v = Inr r) \<and>
      (\<exists>r. max_validator rt (JNum y) v = Inr r) \<and>
      (\<exists>r p'. pattern rt (JRegExp re) v = Inr (r, p'))) \<and>
   (isEmptyValue v = Inr False \<and> \<not> convertible v \<longrightarrow>
      min_validator rt (JNum y) v = Inl TypeError \<and>
      max_validator rt (JNum y) v = Inl TypeError \<and>
      pattern rt (JRegExp re) v = Inl TypeError) \<and>
   ((\<forall>l. length_or_zero v = Inr l \<longrightarrow> convertible l) \<longrightarrow>
      (\<exists>r. minLength rt (JNum y) v = Inr r) \<and>
      (\<exists>r. maxLength rt (JNum y) v = Inr r)) \<and>
   (isEmptyValue v = Inr False \<and> length_or_zero v = Inr l \<and> \<not> convertible l \<longrightarrow>
      minLength rt (JNum y) v = Inl TypeError \<and>
      maxLength rt (JNum y) v = Inl TypeError)"
proof (intro conjI impI)
  show "\<exists>r. required v = Inr r"
    by (rule required_returns)
next
  assume c: "isEmptyValue v = Inr True \<or> convertible v"
  show "\<exists>r. min_validator rt (JNum y) v = Inr r"
    by (rule min_validator_returns [OF c])
  show "\<exists>r. max_validator rt (JNum y) v = Inr r"
    by (rule max_validator_returns [OF c])
  show "\<exists>r p'. pattern rt (JRegExp re) v = Inr (r, p')"
    by (rule pattern_returns [OF c])
next
  assume n: "isEmptyValue v = Inr False \<and> \<not> convertible v"
  then have e: "isEmptyValue v = Inr False" and c: "\<not> convertible v"
    by simp_all
  show "min_validator rt (JNum y) v = Inl TypeError"
    by (rule bounds_and_pattern_throw(1) [OF e c])
  show "max_validator rt (JNum y) v = Inl TypeError"
    by (rule bounds_and_pattern_throw(2) [OF e c])
  show "pattern rt (JRegExp re) v = Inl TypeError"
    by (rule bounds_and_pattern_throw(3) [OF e c])
next
  assume l: "\<forall>l. length_or_zero v = Inr l \<longrightarrow> convertible l"
  show "\<exists>r. minLength rt (JNum y) v = Inr r"
    by (rule minLength_returns [OF l])
  show "\<exists>r. maxLength rt (JNum y) v = Inr r"
    by (rule maxLength_returns [OF l])
next
  assume n: "isEmptyValue v = Inr False \<and> length_or_zero v = Inr l \<and> \<not> convertible l"
  then have e: "isEmptyValue v = Inr False" and l: "length_or_zero v = Inr l"
    and c: "\<not> convertible l"
    by simp_all
  show "minLength rt (JNum y) v = Inl TypeError"
    by (rule length_bounds_throw(1) [OF e l c])
  show "maxLength rt (JNum y) v = Inl TypeError"
    by (rule length_bounds_throw(2) [OF e l c])
qed

text \<open>
  All six on the string \<^verbatim>\<open>'abc'\<close>; \<^verbatim>\<open>min\<close>, \<^verbatim>\<open>max\<close> and \<^verbatim>\<open>pattern\<close> on an array that
  holds a Symbol; \<^verbatim>\<open>minLength\<close> and \<^verbatim>\<open>maxLength\<close> on an object whose length is a Symbol.
\<close>

theorem validators_return_on_convertible_values_witness:
  "convertible (JStr ''abc'') \<and>
   length_or_zero (JStr ''abc'') = Inr (JNum (Fin 3)) \<and> convertible (JNum (Fin 3)) \<and>
   (\<exists>r. required (JStr ''abc'') = Inr r) \<and>
   (\<exists>r. min_validator sample_runtime (JNum (Fin 5)) (JStr ''abc'') = Inr r) \<and>
   (\<exists>r. max_validator sample_runtime (JNum (Fin 5)) (JStr ''abc'') = Inr r) \<and>
   (\<exists>r p'. pattern sample_runtime (JRegExp \<lparr>source = ''^a'', flags = [], lastIndex = 0\<rparr>)
          (JStr ''abc'') = Inr (r, p')) \<and>
   (\<exists>r. minLength sample_runtime (JNum (Fin 5)) (JStr ''abc'') = Inr r) \<and>
   (\<exists>r. maxLength sample_runtime (JNum (Fin 5)) (JStr ''abc'') = Inr r) \<and>
   isEmptyValue (JArr [JSymbol ''id'']) = Inr False \<and> \<not> convertible (JArr [JSymbol ''id'']) \<and>
   min_validator sample_runtime (JNum (Fin 5)) (JArr [JSymbol ''id'']) = Inl TypeError \<and>
   max_validator sample_runtime (JNum (Fin 5)) (JArr [JSymbol ''id'']) = Inl TypeError \<and>
   pattern sample_runtime (JRegExp \<lparr>source = ''^a'', flags = [], lastIndex = 0\<rparr>)
     (JArr [JSymbol ''id'']) = Inl TypeError \<and>
   isEmptyValue (JObj [(''length'', JSymbol ''id'')]) = Inr False \<and>
   length_or_zero (JObj [(''length'', JSymbol ''id'')]) = Inr (JSymbol ''id'') \<and>
   \<not> convertible (JSymbol ''id'') \<and>
   minLength sample_runtime (JNum (Fin 5)) (JObj [(''length'', JSymbol ''id'')]) = Inl TypeError \<and>
   maxLength sample_runtime (JNum (Fin 5)) (JObj [(''length'', JSymbol ''id'')]) = Inl TypeError"
proof -
  have a: "convertible (JStr ''abc'')" "length_or_zero (JStr ''abc'') = Inr (JNum (Fin 3))"
    "convertible (JNum (Fin 3))"
    "\<forall>l. length_or_zero (JStr ''abc'') = Inr l \<longrightarrow> convertible l"
    by simp_all
  have b: "isEmptyValue (JArr [JSymbol ''id'']) = Inr False" "\<not> convertible (JArr [JSymbol ''id''])"
    by (simp_all add: isEmptyValue_def)
  have c: "isEmptyValue (JObj [(''length'', JSymbol ''id'')]) = Inr False"
    "length_or_zero (JObj [(''length'', JSymbol ''id'')]) = Inr (JSymbol ''id'')"
    "\<not> convertible (JSymbol ''id'')"
    by (simp_all add: isEmptyValue_def length_or_zero_def)
  show ?thesis
    using a b c
      validators_return_on_convertible_values [of "JStr ''abc''" sample_runtime "Fin 5"
        "\<lparr>source = ''^a'', flags = [], lastIndex = 0\<rparr>" "JNum (Fin 3)"]
      validators_return_on_convertible_values [of "JArr [JSymbol ''id'']" sample_runtime "Fin 5"
        "\<lparr>source = ''^a'', flags = [], lastIndex = 0\<rparr>" "JNum (Fin 3)"]
      validators_return_on_convertible_values [of "JObj [(''length'', JSymbol ''id'')]"
        sample_runtime "Fin 5" "\<lparr>source = ''^a'', flags = [], lastIndex = 0\<rparr>" "JSymbol ''id''"]
    by blast
qed

text \<open>
  Claim C9 as written fails on a Symbol: \<^verbatim>\<open>isNaN\<close> and \<^verbatim>\<open>RegExp.prototype.test\<close>
  convert their argument, a Symbol converts neither to a number nor to a string, and
  \<^verbatim>\<open>min(5)\<close> and \<^verbatim>\<open>pattern(/^a/)\<close> throw a TypeError; so they do on a plain object
  whose own \<^verbatim>\<open>toString\<close> is not a function.
\<close>

theorem min_throws_on_symbol:
  "min_validator sample_runtime (JNum (Fin 5)) (JSymbol ''id'') = Inl TypeError \<and>
   pattern sample_runtime (JRegExp \<lparr>source = ''^a'', flags = [], lastIndex = 0\<rparr>)
     (JSymbol ''id'') = Inl TypeError \<and>
   min_validator sample_runtime (JNum (Fin 5)) (JObj [(''toString'', JNum (Fin 1))]) = Inl TypeError"
  by (simp add: min_validator_def pattern_def regexp_test_def isEmptyValue_def isNaN_def
      ToNumber_def ToPrimitive_def)

section \<open>Facts about the combinator\<close>

lemma accumulate_simps [simp]:
  "accumulate a [] = a"
  "accumulate a (None # es) = accumulate a es"
  "accumulate a (Some e # es) = accumulate (a ++ e) es"
  by (simp_all add: accumulate_def)

lemma mergeErrors_accumulate: "mergeErrors es = empty_as_null (accumulate Map.empty es)"
  by (simp add: mergeErrors_def accumulate_def empty_as_null_def)

lemma accumulate_start: "accumulate a es = a ++ accumulate Map.empty es"
proof (induction es arbitrary: a)
  case Nil
  then show ?case by simp
next
  case (Cons r es)
  show ?case
  proof (cases r)
    case None
    then show ?thesis using Cons.IH [of a] by simp
  next
    case (Some e)
    then show ?thesis using Cons.IH [of "a ++ e"] Cons.IH [of e] by simp
  qed
qed

lemma accumulate_append: "accumulate a (xs @ ys) = accumulate (accumulate a xs) ys"
  by (simp add: accumulate_def)

lemma accumulate_spec_merge: "accumulate a es = spec_merge a es"
proof (induction a es rule: spec_merge.induct)
  case (3 acc e rs)
  have "(\<lambda>k. case e k of Some d \<Rightarrow> Some d | None \<Rightarrow> acc k) = acc ++ e"
    by (auto simp: map_add_def split: option.splits)
  with 3 show ?case by simp
qed simp_all

lemma dom_accumulate: "dom (accumulate a es) = dom a \<union> (\<Union>e \<in> {e. Some e \<in> set es}. dom e)"
proof (induction es arbitrary: a)
  case Nil
  then show ?case by simp
next
  case (Cons r es)
  then show ?case by (cases r) auto
qed

lemma executeValidators_conv:
  "executeValidators v fs = Inr rs \<longleftrightarrow> list_all2 (\<lambda>f r. f v = Inr r) fs rs"
proof (induction fs arbitrary: rs)
  case Nil
  then show ?case by auto
next
  case (Cons f fs)
  show ?case
  proof (cases "f v")
    case (Inl e)
    then show ?thesis by (auto simp: list_all2_Cons1)
  next
    case (Inr r)
    show ?thesis
    proof (cases "executeValidators v fs")
      case (Inl e)
      with Cons.IH show ?thesis using Inr by (auto simp: list_all2_Cons1)
    next
      case (Inr rs')
      with Cons.IH [of rs'] Cons.IH \<open>f v = Inr r\<close> show ?thesis
        by (auto simp: list_all2_Cons1)
    qed
  qed
qed

lemma executeValidators_returns:
  "\<forall>f \<in> set fs. \<exists>r. f v = Inr r \<Longrightarrow> \<exists>rs. executeValidators v fs = Inr rs"
  by (induction fs) auto

lemma executeValidators_append:
  "executeValidators v xs = Inr rx \<Longrightarrow> executeValidators v ys = Inr ry \<Longrightarrow>
   executeValidators v (xs @ ys) = Inr (rx @ ry)"
  by (simp add: executeValidators_conv list_all2_appendI)

lemma validate_conv:
  "executeValidators v (validator_list vs) = Inr rs \<Longrightarrow>
   validate v vs = Inr \<lparr>errors = mergeErrors rs, valid = (mergeErrors rs = None)\<rparr>"
  by (simp add: validate_def Let_def)


lemma results_set:
  "executeValidators v fs = Inr rs \<Longrightarrow> r \<in> set rs \<longleftrightarrow> (\<exists>f \<in> set fs. f v = Inr r)"
proof (induction fs arbitrary: rs)
  case Nil
  then show ?case by auto
next
  case (Cons f fs)
  from Cons.prems obtain r0 rs0 where f: "f v = Inr r0"
    and fs: "executeValidators v fs = Inr rs0" and rs: "rs = r0 # rs0"
    by (cases "f v"; cases "executeValidators v fs") auto
  show ?case using Cons.IH [OF fs] f rs by auto
qed

lemma null_as_empty_inverse [simp]: "null_as_empty (empty_as_null m) = m"
  by (simp add: null_as_empty_def empty_as_null_def)

lemma empty_as_null_None [simp]: "empty_as_null m = None \<longleftrightarrow> dom m = {}"
  by (simp add: empty_as_null_def)


lemma sample_validators_return:
  "\<exists>r. required (JNum (Fin 4)) = Inr r"
  "\<exists>r. min_validator sample_runtime (JNum (Fin 5)) (JNum (Fin 4)) = Inr r"
  "\<exists>r. max_validator sample_runtime (JNum (Fin 10)) (JNum (Fin 4)) = Inr r"
  by (simp_all add: min_validator_JNum max_validator_JNum)

lemma validate_null_iff:
  assumes "\<forall>f \<in> set (validator_list vs). \<exists>r. f v = Inr r"
  shows "\<exists>res. validate v vs = Inr res \<and> valid res = (errors res = None) \<and>
           (errors res = None \<longleftrightarrow>
              (\<forall>f \<in> set (validator_list vs). \<forall>e. f v = Inr (Some e) \<longrightarrow> dom e = {})) \<and>
           ((\<forall>f \<in> set (validator_list vs). f v \<noteq> Inr (Some Map.empty)) \<longrightarrow>
              (errors res = None \<longleftrightarrow> (\<forall>f \<in> set (validator_list vs). f v = Inr None)))"
proof -
  obtain rs where rs: "executeValidators v (validator_list vs) = Inr rs"
    using executeValidators_returns [OF assms] by blast
  let ?res = "\<lparr>errors = mergeErrors rs, valid = (mergeErrors rs = None)\<rparr>"
  have res: "validate v vs = Inr ?res"
    by (rule validate_conv [OF rs])
  have null: "mergeErrors rs = None \<longleftrightarrow>
      (\<forall>f \<in> set (validator_list vs). \<forall>e. f v = Inr (Some e) \<longrightarrow> dom e = {})"
    using results_set [OF rs] by (auto simp: mergeErrors_accumulate dom_accumulate)
  have plain: "mergeErrors rs = None \<longleftrightarrow> (\<forall>f \<in> set (validator_list vs). f v = Inr None)"
    if "\<forall>f \<in> set (validator_list vs). f v \<noteq> Inr (Some Map.empty)"
  proof
    assume none: "mergeErrors rs = None"
    show "\<forall>f \<in> set (validator_list vs). f v = Inr None"
    proof
      fix f assume f: "f \<in> set (validator_list vs)"
      then obtain r where r: "f v = Inr r" using assms by blast
      show "f v = Inr None"
      proof (cases r)
        case None
        with r show ?thesis by simp
      next
        case (Some e)
        with none null f r have "dom e = {}" by blast
        then have "e = Map.empty" by simp
        with that f r Some show ?thesis by blast
      qed
    qed
  next
    assume "\<forall>f \<in> set (validator_list vs). f v = Inr None"
    then have "\<forall>f \<in> set (validator_list vs). \<forall>e. f v = Inr (Some e) \<longrightarrow> dom e = {}"
      by fastforce
    with null show "mergeErrors rs = None" by blast
  qed
  show ?thesis
    using res null plain by auto
qed


text \<open>
  Claim C1. When the validators \<open>fs\<close> return on \<open>v\<close>, so does \<open>validate\<close> on the list
  \<open>fs\<close>, and its result has \<^verbatim>\<open>valid\<close> true exactly when \<^verbatim>\<open>errors\<close> is \<^verbatim>\<open>null\<close>. A
  validator produces a failure when its result has an entry under some rule key:
  \<^verbatim>\<open>errors\<close> is \<^verbatim>\<open>null\<close> exactly when the result of no validator of \<open>fs\<close> has an
  entry. For validators that return \<^verbatim>\<open>null\<close> or a record with an entry, as the six of
  the repository do, this is: exactly when every validator of \<open>fs\<close> returns \<^verbatim>\<open>null\<close>.
  The same holds of \<open>validate\<close> on a lone validator \<open>g\<close>.
\<close>

theorem validate_valid_iff_errors_null:
  "((\<forall>f \<in> set fs. \<exists>r. f v = Inr r) \<longrightarrow>
      (\<exists>res. validate v (Multiple fs) = Inr res \<and> valid res = (errors res = None) \<and>
         (errors res = None \<longleftrightarrow> (\<forall>f \<in> set fs. \<forall>e. f v = Inr (Some e) \<longrightarrow> dom e = {})) \<and>
         ((\<forall>f \<in> set fs. f v \<noteq> Inr (Some Map.empty)) \<longrightarrow>
            (errors res = None \<longleftrightarrow> (\<forall>f \<in> set fs. f v = Inr None))))) \<and>
   (g v = Inr r \<longrightarrow>
      (\<exists>res. validate v (Single g) = Inr res \<and> valid res = (errors res = None) \<and>
         (errors res = None \<longleftrightarrow> (\<forall>e. r = Some e \<longrightarrow> dom e = {})) \<and>
         (r \<noteq> Some Map.empty \<longrightarrow> (errors res = None \<longleftrightarrow> r = None))))"
proof (intro conjI impI)
  assume "\<forall>f \<in> set fs. \<exists>r. f v = Inr r"
  then have "\<forall>f \<in> set (validator_list (Multiple fs)). \<exists>r. f v = Inr r"
    by (simp add: validator_list_def)
  from validate_null_iff [OF this]
  show "\<exists>res. validate v (Multiple fs) = Inr res \<and> valid res = (errors res = None) \<and>
         (errors res = None \<longleftrightarrow> (\<forall>f \<in> set fs. \<forall>e. f v = Inr (Some e) \<longrightarrow> dom e = {})) \<and>
         ((\<forall>f \<in> set fs. f v \<noteq> Inr (Some Map.empty)) \<longrightarrow>
            (errors res = None \<longleftrightarrow> (\<forall>f \<in> set fs. f v = Inr None)))"
    by (simp add: validator_list_def)
next
  assume g: "g v = Inr r"
  then have "\<forall>f \<in> set (validator_list (Single g)). \<exists>r. f v = Inr r"
    by (simp add: validator_list_def)
  from validate_null_iff [OF this]
  show "\<exists>res. validate v (Single g) = Inr res \<and> valid res = (errors res = None) \<and>
         (errors res = None \<longleftrightarrow> (\<forall>e. r = Some e \<longrightarrow> dom e = {})) \<and>
         (r \<noteq> Some Map.empty \<longrightarrow> (errors res = None \<longleftrightarrow> r = None))"
    using g by (simp add: validator_list_def)
qed

text \<open>
  The three validators of the repository's tests on the number 4, and \<open>required\<close>
  alone on \<^verbatim>\<open>null\<close>.
\<close>

theorem validate_valid_iff_errors_null_witness:
  \<open>(\<exists>r. required (JNum (Fin 4)) = Inr r) \<and>
   (\<exists>r. min_validator sample_runtime (JNum (Fin 5)) (JNum (Fin 4)) = Inr r) \<and>
   (\<exists>r. max_validator sample_runtime (JNum (Fin 10)) (JNum (Fin 4)) = Inr r) \<and>
   required (JNum (Fin 4)) \<noteq> Inr (Some Map.empty) \<and>
   min_validator sample_runtime (JNum (Fin 5)) (JNum (Fin 4)) \<noteq> Inr (Some Map.empty) \<and>
   max_validator sample_runtime (JNum (Fin 10)) (JNum (Fin 4)) \<noteq> Inr (Some Map.empty) \<and>
   (\<exists>res. validate (JNum (Fin 4)) (Multiple [required, min_validator sample_runtime (JNum (Fin 5)),
        max_validator sample_runtime (JNum (Fin 10))]) = Inr res \<and>
      valid res = (errors res = None) \<and>
      (errors res = None \<longleftrightarrow>
         (\<forall>f \<in> set [required, min_validator sample_runtime (JNum (Fin 5)),
            max_validator sample_runtime (JNum (Fin 10))]. f (JNum (Fin 4)) = Inr None))) \<and>
   required JNull =
     Inr (Some [''required'' \<mapsto> \<lparr>message = ''"value" is required'', reason = None\<rparr>]) \<and>
   [''required'' \<mapsto> \<lparr>message = ''"value" is required'', reason = None\<rparr>] \<noteq> Map.empty \<and>
   (\<exists>res. validate JNull (Single required) = Inr res \<and> valid res = (errors res = None) \<and>
      errors res \<noteq> None)\<close>
proof -
  let ?fs = "[required, min_validator sample_runtime (JNum (Fin 5)),
        max_validator sample_runtime (JNum (Fin 10))]"
  let ?e = \<open>[''required'' \<mapsto> \<lparr>message = ''"value" is required'', reason = None\<rparr>]\<close>
  have h: "\<forall>f \<in> set ?fs. \<exists>r. f (JNum (Fin 4)) = Inr r"
    using sample_validators_return by simp
  have k: "\<forall>f \<in> set ?fs. f (JNum (Fin 4)) \<noteq> Inr (Some Map.empty)"
    by (simp add: min_validator_JNum max_validator_JNum)
  have g: "required JNull = Inr (Some ?e)"
    by (simp add: required_def)
  have ne: "?e \<noteq> Map.empty"
    by simp
  note t = validate_valid_iff_errors_null [of ?fs "JNum (Fin 4)", THEN conjunct1, THEN mp, OF h]
  note u = validate_valid_iff_errors_null [of "[]" JNull required "Some ?e", THEN conjunct2,
      THEN mp, OF g]
  from t obtain res where
    r: "validate (JNum (Fin 4)) (Multiple ?fs) = Inr res" "valid res = (errors res = None)"
    and i: "(\<forall>f \<in> set ?fs. f (JNum (Fin 4)) \<noteq> Inr (Some Map.empty)) \<longrightarrow>
       (errors res = None \<longleftrightarrow> (\<forall>f \<in> set ?fs. f (JNum (Fin 4)) = Inr None))"
    by (elim exE conjE)
  from i k have "errors res = None \<longleftrightarrow> (\<forall>f \<in> set ?fs. f (JNum (Fin 4)) = Inr None)"
    by (rule mp)
  with r have m: "\<exists>res. validate (JNum (Fin 4)) (Multiple ?fs) = Inr res \<and>
      valid res = (errors res = None) \<and>
      (errors res = None \<longleftrightarrow> (\<forall>f \<in> set ?fs. f (JNum (Fin 4)) = Inr None))"
    by (intro exI [of _ res] conjI)
  from u obtain res' where
    r': "validate JNull (Single required) = Inr res'" "valid res' = (errors res' = None)"
    and i': "Some ?e \<noteq> Some Map.empty \<longrightarrow> (errors res' = None \<longleftrightarrow> Some ?e = None)"
    by (elim exE conjE)
  from i' ne have "errors res' \<noteq> None"
    by simp
  with r' have s: "\<exists>res. validate JNull (Single required) = Inr res \<and>
      valid res = (errors res = None) \<and> errors res \<noteq> None"
    by (intro exI [of _ res'] conjI)
  have "required (JNum (Fin 4)) \<noteq> Inr (Some Map.empty)"
    "min_validator sample_runtime (JNum (Fin 5)) (JNum (Fin 4)) \<noteq> Inr (Some Map.empty)"
    "max_validator sample_runtime (JNum (Fin 10)) (JNum (Fin 4)) \<noteq> Inr (Some Map.empty)"
    by (simp_all add: min_validator_JNum max_validator_JNum)
  with m s g ne show ?thesis
    using sample_validators_return by (intro conjI)
qed

text \<open>
  Claim C4. When the validators return on \<open>v\<close>, \<open>executeValidators\<close> yields one result
  for each validator of the list, in order, each the result of that validator on
  \<open>v\<close>: none is skipped after a failure. The keys of the returned \<^verbatim>\<open>errors\<close> (none
  when it is \<^verbatim>\<open>null\<close>) are the union of the keys of the results that are not \<^verbatim>\<open>null\<close>.
  In particular \<^verbatim>\<open>validate(null, [required, min(5), max(10)])\<close> has the single key
  \<^verbatim>\<open>required\<close>.
\<close>

theorem validate_runs_every_validator:
  \<open>((\<forall>f \<in> set fs. \<exists>r. f v = Inr r) \<longrightarrow>
      (\<exists>rs res. executeValidators v fs = Inr rs \<and> length rs = length fs \<and>
         (\<forall>i < length fs. (fs ! i) v = Inr (rs ! i)) \<and>
         validate v (Multiple fs) = Inr res \<and>
         dom (null_as_empty (errors res)) = (\<Union>e \<in> {e. Some e \<in> set rs}. dom e))) \<and>
   validate JNull (Multiple [required, min_validator rt (JNum (Fin 5)), max_validator rt (JNum (Fin 10))]) =
     Inr \<lparr>errors = Some [''required'' \<mapsto> \<lparr>message = ''"value" is required'', reason = None\<rparr>],
          valid = False\<rparr>\<close>
proof (intro conjI impI)
  assume a: "\<forall>f \<in> set fs. \<exists>r. f v = Inr r"
  then obtain rs where rs: "executeValidators v fs = Inr rs"
    using executeValidators_returns by blast
  then have all2: "list_all2 (\<lambda>f r. f v = Inr r) fs rs"
    by (simp add: executeValidators_conv)
  have res: "validate v (Multiple fs) = Inr \<lparr>errors = mergeErrors rs, valid = (mergeErrors rs = None)\<rparr>"
    using rs by (intro validate_conv) (simp add: validator_list_def)
  have "dom (null_as_empty (mergeErrors rs)) = (\<Union>e \<in> {e. Some e \<in> set rs}. dom e)"
    by (simp add: mergeErrors_accumulate dom_accumulate)
  with rs all2 res
  show "\<exists>rs res. executeValidators v fs = Inr rs \<and> length rs = length fs \<and>
         (\<forall>i < length fs. (fs ! i) v = Inr (rs ! i)) \<and>
         validate v (Multiple fs) = Inr res \<and>
         dom (null_as_empty (errors res)) = (\<Union>e \<in> {e. Some e \<in> set rs}. dom e)"
    by (auto simp: list_all2_conv_all_nth)
next
  show \<open>validate JNull (Multiple [required, min_validator rt (JNum (Fin 5)), max_validator rt (JNum (Fin 10))]) =
     Inr \<lparr>errors = Some [''required'' \<mapsto> \<lparr>message = ''"value" is required'', reason = None\<rparr>],
          valid = False\<rparr>\<close>
    by (simp add: validate_def validator_list_def mergeErrors_def required_def
        min_validator_def max_validator_def)
qed


theorem validate_runs_every_validator_witness:
  "(\<exists>r. required (JNum (Fin 4)) = Inr r) \<and>
   (\<exists>r. min_validator sample_runtime (JNum (Fin 5)) (JNum (Fin 4)) = Inr r) \<and>
   (\<exists>r. max_validator sample_runtime (JNum (Fin 10)) (JNum (Fin 4)) = Inr r) \<and>
   (\<exists>rs res. executeValidators (JNum (Fin 4)) [required, min_validator sample_runtime (JNum (Fin 5)), max_validator sample_runtime (JNum (Fin 10))] = Inr rs \<and>
      length rs = length [required, min_validator sample_runtime (JNum (Fin 5)), max_validator sample_runtime (JNum (Fin 10))] \<and>
      (\<forall>i < length [required, min_validator sample_runtime (JNum (Fin 5)), max_validator sample_runtime (JNum (Fin 10))]. ([required, min_validator sample_runtime (JNum (Fin 5)), max_validator sample_runtime (JNum (Fin 10))] ! i) (JNum (Fin 4)) = Inr (rs ! i)) \<and>
      validate (JNum (Fin 4)) (Multiple [required, min_validator sample_runtime (JNum (Fin 5)), max_validator sample_runtime (JNum (Fin 10))]) = Inr res \<and>
      dom (null_as_empty (errors res)) = (\<Union>e \<in> {e. Some e \<in> set rs}. dom e))"
proof -
  have h: "\<forall>f \<in> set [required, min_validator sample_runtime (JNum (Fin 5)), max_validator sample_runtime (JNum (Fin 10))]. \<exists>r. f (JNum (Fin 4)) = Inr r"
    using sample_validators_return by simp
  from validate_runs_every_validator [of "[required, min_validator sample_runtime (JNum (Fin 5)), max_validator sample_runtime (JNum (Fin 10))]" "JNum (Fin 4)" sample_runtime]
  have "(\<forall>f \<in> set [required, min_validator sample_runtime (JNum (Fin 5)), max_validator sample_runtime (JNum (Fin 10))]. \<exists>r. f (JNum (Fin 4)) = Inr r) \<longrightarrow>
    (\<exists>rs res. executeValidators (JNum (Fin 4)) [required, min_validator sample_runtime (JNum (Fin 5)), max_validator sample_runtime (JNum (Fin 10))] = Inr rs \<and>
      length rs = length [required, min_validator sample_runtime (JNum (Fin 5)), max_validator sample_runtime (JNum (Fin 10))] \<and>
      (\<forall>i < length [required, min_validator sample_runtime (JNum (Fin 5)), max_validator sample_runtime (JNum (Fin 10))]. ([required, min_validator sample_runtime (JNum (Fin 5)), max_validator sample_runtime (JNum (Fin 10))] ! i) (JNum (Fin 4)) = Inr (rs ! i)) \<and>
      validate (JNum (Fin 4)) (Multiple [required, min_validator sample_runtime (JNum (Fin 5)), max_validator sample_runtime (JNum (Fin 10))]) = Inr res \<and>
      dom (null_as_empty (errors res)) = (\<Union>e \<in> {e. Some e \<in> set rs}. dom e))"
    by (rule conjunct1)
  from this h have "\<exists>rs res. executeValidators (JNum (Fin 4)) [required, min_validator sample_runtime (JNum (Fin 5)), max_validator sample_runtime (JNum (Fin 10))] = Inr rs \<and>
      length rs = length [required, min_validator sample_runtime (JNum (Fin 5)), max_validator sample_runtime (JNum (Fin 10))] \<and>
      (\<forall>i < length [required, min_validator sample_runtime (JNum (Fin 5)), max_validator sample_runtime (JNum (Fin 10))]. ([required, min_validator sample_runtime (JNum (Fin 5)), max_validator sample_runtime (JNum (Fin 10))] ! i) (JNum (Fin 4)) = Inr (rs ! i)) \<and>
      validate (JNum (Fin 4)) (Multiple [required, min_validator sample_runtime (JNum (Fin 5)), max_validator sample_runtime (JNum (Fin 10))]) = Inr res \<and>
      dom (null_as_empty (errors res)) = (\<Union>e \<in> {e. Some e \<in> set rs}. dom e)"
    by (rule mp)
  then show ?thesis
    using sample_validators_return by (intro conjI)
qed

text \<open>
  Claim C5. When the validators return on \<open>v\<close>, the \<^verbatim>\<open>errors\<close> of \<open>validate\<close> are the
  fold of their results, each validator's result on \<open>v\<close> in the order of the list,
  from left to right, in which a later entry replaces an earlier one under the same
  key, read as \<^verbatim>\<open>null\<close> exactly when that fold has no key; and
  \<^verbatim>\<open>validate(v, [])\<close> is \<^verbatim>\<open>{ errors: null, valid: true }\<close> for every \<open>v\<close>.
\<close>

theorem validate_folds_left_to_right:
  "((\<forall>f \<in> set fs. \<exists>r. f v = Inr r) \<longrightarrow>
      (\<exists>rs. executeValidators v fs = Inr rs \<and> length rs = length fs \<and>
         (\<forall>i < length fs. (fs ! i) v = Inr (rs ! i)) \<and>
         validate v (Multiple fs) =
           Inr \<lparr>errors = (if dom (spec_merge Map.empty rs) = {} then None
                          else Some (spec_merge Map.empty rs)),
                valid = (dom (spec_merge Map.empty rs) = {})\<rparr>)) \<and>
   validate v (Multiple []) = Inr \<lparr>errors = None, valid = True\<rparr>"
proof (intro conjI impI)
  assume "\<forall>f \<in> set fs. \<exists>r. f v = Inr r"
  then obtain rs where rs: "executeValidators v fs = Inr rs"
    using executeValidators_returns by blast
  have "validate v (Multiple fs) = Inr \<lparr>errors = mergeErrors rs, valid = (mergeErrors rs = None)\<rparr>"
    using rs by (intro validate_conv) (simp add: validator_list_def)
  moreover have "mergeErrors rs = (if dom (spec_merge Map.empty rs) = {} then None
                          else Some (spec_merge Map.empty rs))"
    by (simp add: mergeErrors_accumulate accumulate_spec_merge empty_as_null_def)
  moreover have "length rs = length fs \<and> (\<forall>i < length fs. (fs ! i) v = Inr (rs ! i))"
    using rs by (auto simp: executeValidators_conv list_all2_conv_all_nth)
  ultimately show "\<exists>rs. executeValidators v fs = Inr rs \<and> length rs = length fs \<and>
         (\<forall>i < length fs. (fs ! i) v = Inr (rs ! i)) \<and>
         validate v (Multiple fs) =
           Inr \<lparr>errors = (if dom (spec_merge Map.empty rs) = {} then None
                          else Some (spec_merge Map.empty rs)),
                valid = (dom (spec_merge Map.empty rs) = {})\<rparr>"
    using rs by auto
next
  show "validate v (Multiple []) = Inr \<lparr>errors = None, valid = True\<rparr>"
    by (simp add: validate_def validator_list_def mergeErrors_def)
qed


theorem validate_folds_left_to_right_witness:
  "(\<exists>r. required (JNum (Fin 4)) = Inr r) \<and>
   (\<exists>r. min_validator sample_runtime (JNum (Fin 5)) (JNum (Fin 4)) = Inr r) \<and>
   (\<exists>r. max_validator sample_runtime (JNum (Fin 10)) (JNum (Fin 4)) = Inr r) \<and>
   (\<exists>rs. executeValidators (JNum (Fin 4)) [required, min_validator sample_runtime (JNum (Fin 5)), max_validator sample_runtime (JNum (Fin 10))] = Inr rs \<and>
      length rs = length [required, min_validator sample_runtime (JNum (Fin 5)), max_validator sample_runtime (JNum (Fin 10))] \<and>
      (\<forall>i < length [required, min_validator sample_runtime (JNum (Fin 5)), max_validator sample_runtime (JNum (Fin 10))]. ([required, min_validator sample_runtime (JNum (Fin 5)), max_validator sample_runtime (JNum (Fin 10))] ! i) (JNum (Fin 4)) = Inr (rs ! i)) \<and>
      validate (JNum (Fin 4)) (Multiple [required, min_validator sample_runtime (JNum (Fin 5)), max_validator sample_runtime (JNum (Fin 10))]) =
        Inr \<lparr>errors = (if dom (spec_merge Map.empty rs) = {} then None
                       else Some (spec_merge Map.empty rs)),
             valid = (dom (spec_merge Map.empty rs) = {})\<rparr>)"
proof -
  have h: "\<forall>f \<in> set [required, min_validator sample_runtime (JNum (Fin 5)), max_validator sample_runtime (JNum (Fin 10))]. \<exists>r. f (JNum (Fin 4)) = Inr r"
    using sample_validators_return by simp
  from validate_folds_left_to_right [of "[required, min_validator sample_runtime (JNum (Fin 5)), max_validator sample_runtime (JNum (Fin 10))]" "JNum (Fin 4)"]
  have "(\<forall>f \<in> set [required, min_validator sample_runtime (JNum (Fin 5)), max_validator sample_runtime (JNum (Fin 10))]. \<exists>r. f (JNum (Fin 4)) = Inr r) \<longrightarrow>
    (\<exists>rs. executeValidators (JNum (Fin 4)) [required, min_validator sample_runtime (JNum (Fin 5)), max_validator sample_runtime (JNum (Fin 10))] = Inr rs \<and>
      length rs = length [required, min_validator sample_runtime (JNum (Fin 5)), max_validator sample_runtime (JNum (Fin 10))] \<and>
      (\<forall>i < length [required, min_validator sample_runtime (JNum (Fin 5)), max_validator sample_runtime (JNum (Fin 10))]. ([required, min_validator sample_runtime (JNum (Fin 5)), max_validator sample_runtime (JNum (Fin 10))] ! i) (JNum (Fin 4)) = Inr (rs ! i)) \<and>
      validate (JNum (Fin 4)) (Multiple [required, min_validator sample_runtime (JNum (Fin 5)), max_validator sample_runtime (JNum (Fin 10))]) =
        Inr \<lparr>errors = (if dom (spec_merge Map.empty rs) = {} then None
                       else Some (spec_merge Map.empty rs)),
             valid = (dom (spec_merge Map.empty rs) = {})\<rparr>)"
    by (rule conjunct1)
  from this h have "\<exists>rs. executeValidators (JNum (Fin 4)) [required, min_validator sample_runtime (JNum (Fin 5)), max_validator sample_runtime (JNum (Fin 10))] = Inr rs \<and>
      length rs = length [required, min_validator sample_runtime (JNum (Fin 5)), max_validator sample_runtime (JNum (Fin 10))] \<and>
      (\<forall>i < length [required, min_validator sample_runtime (JNum (Fin 5)), max_validator sample_runtime (JNum (Fin 10))]. ([required, min_validator sample_runtime (JNum (Fin 5)), max_validator sample_runtime (JNum (Fin 10))] ! i) (JNum (Fin 4)) = Inr (rs ! i)) \<and>
      validate (JNum (Fin 4)) (Multiple [required, min_validator sample_runtime (JNum (Fin 5)), max_validator sample_runtime (JNum (Fin 10))]) =
        Inr \<lparr>errors = (if dom (spec_merge Map.empty rs) = {} then None
                       else Some (spec_merge Map.empty rs)),
             valid = (dom (spec_merge Map.empty rs) = {})\<rparr>"
    by (rule mp)
  then show ?thesis
    using sample_validators_return by (intro conjI)
qed

text \<open>
  Claim C10. When the validators of \<open>xs\<close> and \<open>ys\<close> return on \<open>v\<close>, so does \<open>validate\<close>
  on \<open>xs\<close>, on \<open>ys\<close> and on \<open>xs @ ys\<close>; the \<^verbatim>\<open>errors\<close> of the concatenation are the
  union of the two \<^verbatim>\<open>errors\<close> in which the entries of the second win (\<^verbatim>\<open>null\<close> read
  as the empty mapping, an empty union read back as \<^verbatim>\<open>null\<close>), and its \<^verbatim>\<open>valid\<close> is
  the conjunction of the two.
\<close>

theorem validate_append:
  assumes "\<forall>f \<in> set (xs @ ys). \<exists>r. f v = Inr r"
  shows "\<exists>rx ry rxy.
           validate v (Multiple xs) = Inr rx \<and> validate v (Multiple ys) = Inr ry \<and>
           validate v (Multiple (xs @ ys)) = Inr rxy \<and>
           errors rxy = empty_as_null (null_as_empty (errors rx) ++ null_as_empty (errors ry)) \<and>
           valid rxy = (valid rx \<and> valid ry)"
proof -
  from assms have "\<forall>f \<in> set xs. \<exists>r. f v = Inr r" and "\<forall>f \<in> set ys. \<exists>r. f v = Inr r"
    by auto
  then obtain rsx rsy where x: "executeValidators v xs = Inr rsx"
    and y: "executeValidators v ys = Inr rsy"
    using executeValidators_returns by blast
  have xy: "executeValidators v (xs @ ys) = Inr (rsx @ rsy)"
    by (rule executeValidators_append [OF x y])
  have vx: "validate v (Multiple xs) = Inr \<lparr>errors = mergeErrors rsx, valid = (mergeErrors rsx = None)\<rparr>"
    using x by (intro validate_conv) (simp add: validator_list_def)
  have vy: "validate v (Multiple ys) = Inr \<lparr>errors = mergeErrors rsy, valid = (mergeErrors rsy = None)\<rparr>"
    using y by (intro validate_conv) (simp add: validator_list_def)
  have vxy: "validate v (Multiple (xs @ ys)) =
      Inr \<lparr>errors = mergeErrors (rsx @ rsy), valid = (mergeErrors (rsx @ rsy) = None)\<rparr>"
    using xy by (intro validate_conv) (simp add: validator_list_def)
  have acc: "accumulate Map.empty (rsx @ rsy) = accumulate Map.empty rsx ++ accumulate Map.empty rsy"
    using accumulate_start [of "accumulate Map.empty rsx" rsy] by (simp add: accumulate_append)
  have e: "mergeErrors (rsx @ rsy) =
      empty_as_null (null_as_empty (mergeErrors rsx) ++ null_as_empty (mergeErrors rsy))"
    by (simp add: mergeErrors_accumulate acc)
  have "(mergeErrors (rsx @ rsy) = None) = (mergeErrors rsx = None \<and> mergeErrors rsy = None)"
    by (auto simp: mergeErrors_accumulate acc)
  with vx vy vxy e show ?thesis by simp
qed


theorem validate_append_witness:
  "(\<exists>r. required (JNum (Fin 4)) = Inr r) \<and>
   (\<exists>r. min_validator sample_runtime (JNum (Fin 5)) (JNum (Fin 4)) = Inr r) \<and>
   (\<exists>rx ry rxy.
      validate (JNum (Fin 4)) (Multiple [required]) = Inr rx \<and>
      validate (JNum (Fin 4)) (Multiple [min_validator sample_runtime (JNum (Fin 5))]) = Inr ry \<and>
      validate (JNum (Fin 4))
        (Multiple ([required] @ [min_validator sample_runtime (JNum (Fin 5))])) = Inr rxy \<and>
      errors rxy = empty_as_null (null_as_empty (errors rx) ++ null_as_empty (errors ry)) \<and>
      valid rxy = (valid rx \<and> valid ry))"
proof -
  have h: "\<forall>f \<in> set ([required] @ [min_validator sample_runtime (JNum (Fin 5))]).
       \<exists>r. f (JNum (Fin 4)) = Inr r"
    using sample_validators_return by simp
  from validate_append [OF h] show ?thesis
    using sample_validators_return(1,2) by (intro conjI)
qed

end
